theory Spec2Isabelle
  imports Complex_Main
begin

section \<open>Loan origination: worker computations and the orchestrator\<close>

text \<open>
  A shallow embedding of the loan-origination repository: the EMI calculator
  (utils/emi_calculator.py), the four worker agents (agents/*_agent.py), the mock
  registry and credit-score service (services/mock_data.py) and the orchestrator
  (agents/master_agent.py).

  Conventions of the embedding.
  \<^item> Python \<open>float\<close> values are idealised as \<open>real\<close>: arithmetic is exact, and
    \<open>round(x, 2)\<close> is rounding of the exact value to the nearest hundredth, ties to
    the even hundredth. A power that leaves the range of a double raises OverflowError.
    The EMI function is first given over an arbitrary float arithmetic, of which the
    exact one is an instance, so that what is proved of it holds of the floats of the
    interpreter too.
  \<^item> Python \<open>int\<close> is \<open>int\<close>; \<open>a // b\<close> with a positive divisor is \<open>a div b\<close>.
  \<^item> A raised exception is the \<open>Inl\<close> branch of a sum type.
  \<^item> A value read with \<open>dict.get\<close> is an \<open>option\<close>: \<open>None\<close> is an absent key.
\<close>

subsection \<open>Exceptions\<close>

datatype error =
    ValueError string
  | ZeroDivisionError
  | OverflowError
  | TypeError
  | AttributeError
  | ValidationError
  | CollaboratorError string

text \<open>
  \<open>ValueError\<close> carries the text given at the \<open>raise\<close>. \<open>ZeroDivisionError\<close>,
  \<open>OverflowError\<close> (a float power out of range), \<open>TypeError\<close> (subscripting \<open>None\<close>), \<open>AttributeError\<close> (an attribute of \<open>None\<close>)
  and \<open>ValidationError\<close> (a pydantic model refusing a field) are raised by the
  interpreter or a library; their texts are not reproduced. \<open>CollaboratorError\<close> is an
  exception raised inside an external call (here the PDF generator), with its text.
\<close>

subsection \<open>Rounding to two decimals\<close>

definition round_half_even :: "real \<Rightarrow> int" where
  "round_half_even x =
     (let f = \<lfloor>x\<rfloor>; d = x - of_int f
      in if d < 1 / 2 then f
         else if 1 / 2 < d then f + 1
         else if even f then f else f + 1)"

definition py_round2 :: "real \<Rightarrow> real" where
  "py_round2 x = of_int (round_half_even (x * 100)) / 100"

subsection \<open>utils/emi_calculator.py\<close>

text \<open>
  The float operations \<open>calculate_emi\<close> uses, as a record of functions over a type
  \<open>'f\<close> of float values: conversion from \<open>int\<close>, the test \<open>x == 0\<close>, the four
  operations, \<open>x ** n\<close> for an \<open>int\<close> exponent (which may raise) and \<open>round(x, 2)\<close>.
  Division is only applied to a divisor that is not zero: the model raises
  ZeroDivisionError itself, as the interpreter does.
\<close>

record 'f float_arith =
  fl_of_int :: "int \<Rightarrow> 'f"
  fl_is_zero :: "'f \<Rightarrow> bool"
  fl_add :: "'f \<Rightarrow> 'f \<Rightarrow> 'f"
  fl_sub :: "'f \<Rightarrow> 'f \<Rightarrow> 'f"
  fl_mul :: "'f \<Rightarrow> 'f \<Rightarrow> 'f"
  fl_div :: "'f \<Rightarrow> 'f \<Rightarrow> 'f"
  fl_pow :: "'f \<Rightarrow> int \<Rightarrow> error + 'f"
  fl_round2 :: "'f \<Rightarrow> 'f"

text \<open>\<open>calculate_emi\<close>, statement by statement, over a float arithmetic \<open>fa\<close>. The
  power is written twice in the source and computed twice, with the same outcome.\<close>

definition calculate_emi_with :: "'f float_arith \<Rightarrow> 'f \<Rightarrow> 'f \<Rightarrow> int \<Rightarrow> error + 'f" where
  "calculate_emi_with fa loan_principal annual_rate tenure_months =
     (if tenure_months = 0 then Inr (fl_of_int fa 0)
      else
        let monthly_rate = fl_div fa annual_rate (fl_of_int fa (12 * 100))
        in if fl_is_zero fa monthly_rate
             then Inr (fl_div fa loan_principal (fl_of_int fa tenure_months))
           else
             (case fl_pow fa (fl_add fa (fl_of_int fa 1) monthly_rate) tenure_months of
                Inl e \<Rightarrow> Inl e
              | Inr pw \<Rightarrow>
                  if fl_is_zero fa (fl_sub fa pw (fl_of_int fa 1)) then Inl ZeroDivisionError
                  else Inr (fl_round2 fa
                              (fl_div fa (fl_mul fa (fl_mul fa loan_principal monthly_rate) pw)
                                 (fl_sub fa pw (fl_of_int fa 1))))))"

text \<open>
  The exact arithmetic. \<open>x ** n\<close> for a float base and an int exponent: a zero base
  with a negative exponent raises ZeroDivisionError, and a result of magnitude
  \<open>2 ^ 1024\<close> or more, beyond the largest double, raises OverflowError. The values
  themselves are not rounded to 53 bits: where a double would round \<open>1 + m\<close> to 1, or
  would put an amount on the other side of a tie of \<open>round\<close>, this arithmetic differs
  from the interpreter's. The general statements about the EMI function are therefore
  made for \<open>calculate_emi_with\<close> and every arithmetic; this instance serves the
  concrete conversations, whose amounts are the ones the interpreter computes.
\<close>

definition DBL_RANGE :: real where
  "DBL_RANGE = 2 ^ 1024"

definition py_float_pow :: "real \<Rightarrow> int \<Rightarrow> error + real" where
  "py_float_pow x n =
     (if 0 \<le> n then
        (if DBL_RANGE \<le> \<bar>x ^ nat n\<bar> then Inl OverflowError else Inr (x ^ nat n))
      else if x = 0 then Inl ZeroDivisionError
      else if DBL_RANGE \<le> \<bar>1 / x ^ nat (- n)\<bar> then Inl OverflowError
      else Inr (1 / x ^ nat (- n)))"

definition exact_arith :: "real float_arith" where
  "exact_arith =
     \<lparr> fl_of_int = of_int, fl_is_zero = (\<lambda>x. x = 0),
       fl_add = (+), fl_sub = (-), fl_mul = (*), fl_div = (/),
       fl_pow = py_float_pow, fl_round2 = py_round2 \<rparr>"

text \<open>\<open>calculate_emi\<close> as the rest of the embedding calls it.\<close>

definition calculate_emi :: "real \<Rightarrow> real \<Rightarrow> int \<Rightarrow> error + real" where
  "calculate_emi = calculate_emi_with exact_arith"

definition get_interest_range :: "int \<Rightarrow> string" where
  "get_interest_range loan_amount =
     (if loan_amount < 300000 then ''13% - 15%''
      else if loan_amount \<le> 1000000 then ''11.5% - 14%''
      else ''10.5% - 13%'')"

subsection \<open>agents/underwriting_agent.py\<close>

datatype UnderwritingDecision = APPROVED | CONDITIONAL | REJECTED

definition MIN_INTEREST_RATE :: real where "MIN_INTEREST_RATE = 9.5"
definition MAX_INTEREST_RATE :: real where "MAX_INTEREST_RATE = 18.0"
definition BASE_RATE :: real where "BASE_RATE = 11.0"

record rate_components =
  base :: real
  credit_adjustment :: real
  tenure_adjustment :: real

record UnderwritingOutput =
  decision :: UnderwritingDecision
  approved_amount :: int
  credit_score :: int
  rate_comps :: rate_components
  final_interest_rate :: real
  risk_grade :: string

text \<open>The \<open>input_data\<close> dictionary of the underwriting agent; every field is read
  with \<open>.get\<close>.\<close>

record underwriting_input =
  uw_customer_id :: "string option"
  uw_requested_amount :: "int option"
  uw_tenure_months :: "int option"
  uw_monthly_income :: "real option"
  uw_estimated_emi :: "real option"

text \<open>\<open>MockCreditScoreAPI.get_credit_score\<close>. The parameter \<open>md5\<close> stands for
  \<open>int(hashlib.md5(customer_id.encode()).hexdigest(), 16)\<close>, a library function.\<close>

definition get_credit_score :: "(string \<Rightarrow> nat) \<Rightarrow> string \<Rightarrow> int" where
  "get_credit_score md5 customer_id = 600 + int (md5 customer_id mod 251)"

definition evaluate_eligibility ::
  "int \<Rightarrow> real \<Rightarrow> int \<Rightarrow> real \<Rightarrow> UnderwritingDecision \<times> int \<times> string" where
  "evaluate_eligibility score monthly_income requested_amount estimated_emi =
     (if score < 700 then (REJECTED, 0, ''Credit score below threshold (700)'')
      else if estimated_emi > monthly_income * 0.5
        then (REJECTED, 0, ''EMI exceeds 50% of monthly income'')
      else
        let max_amount =
              (if score \<ge> 750 \<and> monthly_income \<ge> 75000 then 2000000
               else if score \<ge> 700 \<and> monthly_income \<ge> 50000 then 1000000
               else 500000)
        in if requested_amount > max_amount
             then (CONDITIONAL, max_amount, ''Approved for maximum eligible amount'')
           else (APPROVED, requested_amount, ''''))"

definition calculate_rate_components :: "int \<Rightarrow> int \<Rightarrow> rate_components" where
  "calculate_rate_components score tenure_months =
     (let credit_adj = (if score > 700 then - 0.5 * of_int ((score - 700) div 50) else 0);
          tenure_years = of_int tenure_months / 12;
          tenure_adj = 0.2 * max 0 (tenure_years - 3)
      in \<lparr> base = BASE_RATE,
           credit_adjustment = py_round2 credit_adj,
           tenure_adjustment = py_round2 tenure_adj \<rparr>)"

definition apply_rate_bounds :: "real \<Rightarrow> real" where
  "apply_rate_bounds rate = py_round2 (max MIN_INTEREST_RATE (min MAX_INTEREST_RATE rate))"

definition calculate_risk_grade :: "int \<Rightarrow> string" where
  "calculate_risk_grade score =
     (if score \<ge> 750 then ''A+''
      else if score \<ge> 725 then ''A''
      else if score \<ge> 700 then ''B+''
      else if score \<ge> 675 then ''B''
      else ''C+'')"

text \<open>Python truthiness of the values \<open>all([...])\<close> tests: \<open>None\<close>, the empty string
  and zero are false.\<close>

definition truthy_str :: "string option \<Rightarrow> bool" where
  "truthy_str v = (case v of None \<Rightarrow> False | Some s \<Rightarrow> s \<noteq> [])"

definition truthy_int :: "int option \<Rightarrow> bool" where
  "truthy_int v = (case v of None \<Rightarrow> False | Some n \<Rightarrow> n \<noteq> 0)"

definition truthy_real :: "real option \<Rightarrow> bool" where
  "truthy_real v = (case v of None \<Rightarrow> False | Some x \<Rightarrow> x \<noteq> 0)"

definition UnderwritingAgent_execute ::
  "(string \<Rightarrow> nat) \<Rightarrow> underwriting_input \<Rightarrow> error + UnderwritingOutput" where
  "UnderwritingAgent_execute md5 input_data =
     (if \<not> (truthy_str (uw_customer_id input_data)
             \<and> truthy_int (uw_requested_amount input_data)
             \<and> truthy_int (uw_tenure_months input_data)
             \<and> truthy_real (uw_monthly_income input_data)
             \<and> truthy_real (uw_estimated_emi input_data))
      then Inl (ValueError ''Missing required underwriting parameters'')
      else
        let score = get_credit_score md5 (the (uw_customer_id input_data));
            (dec, amount, rejection_reason) =
               evaluate_eligibility score (the (uw_monthly_income input_data))
                 (the (uw_requested_amount input_data)) (the (uw_estimated_emi input_data));
            rc = calculate_rate_components score (the (uw_tenure_months input_data));
            final_rate = apply_rate_bounds
               (BASE_RATE + credit_adjustment rc + tenure_adjustment rc)
        in Inr \<lparr> decision = dec,
                 approved_amount = amount,
                 credit_score = score,
                 rate_comps = rc,
                 final_interest_rate = final_rate,
                 risk_grade = calculate_risk_grade score \<rparr>)"

subsection \<open>Strings\<close>

text \<open>
  Strings are lists of 8-bit characters. \<open>upper\<close> and \<open>lower\<close> convert the ASCII
  letters and leave every other character as it is: they are \<open>str.upper()\<close> and
  \<open>str.lower()\<close> on ASCII strings. On other characters the methods of the source
  follow Unicode (\<open>0xDF\<close> becomes \<open>SS\<close>), which the model does not.
\<close>

definition is_ascii :: "char \<Rightarrow> bool" where
  "is_ascii c = ((of_char c :: nat) < 128)"

definition is_digit :: "char \<Rightarrow> bool" where
  "is_digit c = (48 \<le> (of_char c :: nat) \<and> (of_char c :: nat) \<le> 57)"

definition is_upper_AZ :: "char \<Rightarrow> bool" where
  "is_upper_AZ c = (65 \<le> (of_char c :: nat) \<and> (of_char c :: nat) \<le> 90)"

definition is_lower_az :: "char \<Rightarrow> bool" where
  "is_lower_az c = (97 \<le> (of_char c :: nat) \<and> (of_char c :: nat) \<le> 122)"

definition py_isspace :: "char \<Rightarrow> bool" where
  "py_isspace c =
     (let n = (of_char c :: nat)
      in (9 \<le> n \<and> n \<le> 13) \<or> (28 \<le> n \<and> n \<le> 32) \<or> n = 133 \<or> n = 160)"

definition upper_char :: "char \<Rightarrow> char" where
  "upper_char c = (if is_lower_az c then char_of ((of_char c :: nat) - 32) else c)"

definition lower_char :: "char \<Rightarrow> char" where
  "lower_char c = (if is_upper_AZ c then char_of ((of_char c :: nat) + 32) else c)"

definition upper :: "string \<Rightarrow> string" where
  "upper s = map upper_char s"

definition lower :: "string \<Rightarrow> string" where
  "lower s = map lower_char s"

definition strip :: "string \<Rightarrow> string" where
  "strip s = rev (dropWhile py_isspace (rev (dropWhile py_isspace s)))"

text \<open>\<open>needle in hay\<close> on strings.\<close>

fun starts_with :: "string \<Rightarrow> string \<Rightarrow> bool" where
  "starts_with [] hay = True"
| "starts_with (c # cs) [] = False"
| "starts_with (c # cs) (h # hs) = (c = h \<and> starts_with cs hs)"

fun py_in :: "string \<Rightarrow> string \<Rightarrow> bool" where
  "py_in needle [] = (needle = [])"
| "py_in needle (h # hs) = (starts_with needle (h # hs) \<or> py_in needle hs)"

text \<open>\<open>str.split()\<close> with no argument: the maximal runs of non-space characters.\<close>

fun split_ws :: "string \<Rightarrow> string \<Rightarrow> string list" where
  "split_ws cur [] = (if cur = [] then [] else [cur])"
| "split_ws cur (c # cs) =
     (if py_isspace c then (if cur = [] then split_ws [] cs else cur # split_ws [] cs)
      else split_ws (cur @ [c]) cs)"

definition split :: "string \<Rightarrow> string list" where
  "split s = split_ws [] s"

text \<open>\<open>sep.join(parts)\<close>.\<close>

fun join :: "string \<Rightarrow> string list \<Rightarrow> string" where
  "join sep [] = []"
| "join sep [x] = x"
| "join sep (x # y # ys) = x @ sep @ join sep (y # ys)"

text \<open>\<open>str.isupper()\<close>: at least one cased character, and no lower-case one.\<close>

definition isupper :: "string \<Rightarrow> bool" where
  "isupper s = (list_ex is_upper_AZ s \<and> \<not> list_ex is_lower_az s)"

subsection \<open>agents/sales_agent.py\<close>

record SalesOutput =
  so_requested_amount :: int
  so_tenure_months :: int
  so_estimated_emi :: real
  so_interest_range :: string

record sales_input =
  si_requested_amount :: "int option"
  si_tenure_months :: "int option"

text \<open>\<open>re.findall(r'(\d+\.?\d*)', s)\<close> as a scanner: a token is a maximal run of
  digits, then at most one dot, then a maximal run of digits.\<close>

datatype scan_state = Idle | IntPart string | FracPart string

fun findall_numbers :: "scan_state \<Rightarrow> string \<Rightarrow> string list" where
  "findall_numbers Idle [] = []"
| "findall_numbers (IntPart a) [] = [a]"
| "findall_numbers (FracPart a) [] = [a]"
| "findall_numbers Idle (c # cs) =
     (if is_digit c then findall_numbers (IntPart [c]) cs else findall_numbers Idle cs)"
| "findall_numbers (IntPart a) (c # cs) =
     (if is_digit c then findall_numbers (IntPart (a @ [c])) cs
      else if c = CHR ''.'' then findall_numbers (FracPart (a @ [c])) cs
      else a # findall_numbers Idle cs)"
| "findall_numbers (FracPart a) (c # cs) =
     (if is_digit c then findall_numbers (FracPart (a @ [c])) cs
      else a # findall_numbers Idle cs)"

definition digits_to_nat :: "string \<Rightarrow> nat" where
  "digits_to_nat ds = foldl (\<lambda>a c. 10 * a + ((of_char c :: nat) - 48)) 0 ds"

text \<open>\<open>float(tok)\<close> on a token of the scanner above (digits, optional dot, digits).\<close>

definition py_float :: "string \<Rightarrow> real" where
  "py_float tok =
     (let ip = takeWhile is_digit tok; fp = drop 1 (dropWhile is_digit tok)
      in real (digits_to_nat ip) + real (digits_to_nat fp) / 10 ^ length fp)"

definition get_mid_rate :: "string \<Rightarrow> real" where
  "get_mid_rate interest_range =
     (case findall_numbers Idle interest_range of
        lo # hi # rest \<Rightarrow> (py_float lo + py_float hi) / 2
      | _ \<Rightarrow> 12.0)"

definition SalesAgent_execute :: "sales_input \<Rightarrow> error + SalesOutput" where
  "SalesAgent_execute input_data =
     (if \<not> truthy_int (si_requested_amount input_data)
         \<or> \<not> truthy_int (si_tenure_months input_data)
      then Inl (ValueError ''Missing required fields: requested_amount and tenure_months'')
      else
        let requested_amount = the (si_requested_amount input_data);
            tenure_months = the (si_tenure_months input_data);
            interest_range = get_interest_range requested_amount;
            mid_rate = get_mid_rate interest_range
        in case calculate_emi (of_int requested_amount) mid_rate tenure_months of
             Inl e \<Rightarrow> Inl e
           | Inr estimated_emi \<Rightarrow>
               Inr \<lparr> so_requested_amount = requested_amount,
                     so_tenure_months = tenure_months,
                     so_estimated_emi = estimated_emi,
                     so_interest_range = interest_range \<rparr>)"

subsection \<open>services/mock_data.py: the customer registry\<close>

record customer =
  cust_name :: string
  cust_pan :: string
  cust_employment_type :: string
  cust_monthly_income :: int

type_synonym crm_db = "(string \<times> customer) list"

definition CRM_DATABASE :: crm_db where
  "CRM_DATABASE =
     [(''CUST001'', \<lparr> cust_name = ''Rajesh Kumar'', cust_pan = ''ABCDE1234F'',
          cust_employment_type = ''SALARIED'', cust_monthly_income = 75000 \<rparr>),
      (''CUST002'', \<lparr> cust_name = ''Priya Sharma'', cust_pan = ''FGHIJ5678K'',
          cust_employment_type = ''SALARIED'', cust_monthly_income = 95000 \<rparr>),
      (''CUST003'', \<lparr> cust_name = ''Amit Patel'', cust_pan = ''KLMNO9012P'',
          cust_employment_type = ''SELF_EMPLOYED'', cust_monthly_income = 120000 \<rparr>),
      (''CUST004'', \<lparr> cust_name = ''Sneha Reddy'', cust_pan = ''QRSTU3456V'',
          cust_employment_type = ''SALARIED'', cust_monthly_income = 55000 \<rparr>),
      (''CUST005'', \<lparr> cust_name = ''Vikram Singh'', cust_pan = ''WXYZ7890A'',
          cust_employment_type = ''BUSINESS'', cust_monthly_income = 150000 \<rparr>),
      (''CUST006'', \<lparr> cust_name = ''Anita Desai'', cust_pan = ''BCDEF2345G'',
          cust_employment_type = ''SALARIED'', cust_monthly_income = 45000 \<rparr>),
      (''CUST007'', \<lparr> cust_name = ''Karan Mehta'', cust_pan = ''GHIJK6789L'',
          cust_employment_type = ''SALARIED'', cust_monthly_income = 85000 \<rparr>),
      (''CUST008'', \<lparr> cust_name = ''Deepa Iyer'', cust_pan = ''MNOPQ0123R'',
          cust_employment_type = ''SELF_EMPLOYED'', cust_monthly_income = 65000 \<rparr>),
      (''CUST009'', \<lparr> cust_name = ''Rahul Gupta'', cust_pan = ''STUVW4567X'',
          cust_employment_type = ''SALARIED'', cust_monthly_income = 110000 \<rparr>),
      (''CUST010'', \<lparr> cust_name = ''Meera Nair'', cust_pan = ''YZABC8901D'',
          cust_employment_type = ''SALARIED'', cust_monthly_income = 20000 \<rparr>)]"

text \<open>The worker functions take the registry as a parameter; \<open>CRM_DATABASE\<close> is the
  table of the source. Each record keeps the fields the code reads.\<close>

fun lookup_by_pan :: "crm_db \<Rightarrow> string \<Rightarrow> (string \<times> customer) option" where
  "lookup_by_pan [] pan = None"
| "lookup_by_pan ((customer_id, data) # rest) pan =
     (if cust_pan data = upper pan then Some (customer_id, data)
      else lookup_by_pan rest pan)"

definition verify_customer ::
  "crm_db \<Rightarrow> string \<Rightarrow> string \<Rightarrow> string \<Rightarrow> bool \<times> string option \<times> customer option" where
  "verify_customer db name pan employment_type =
     (case lookup_by_pan db pan of
        None \<Rightarrow> (False, None, None)
      | Some (customer_id, c) \<Rightarrow>
          let name_match = (py_in (lower name) (lower (cust_name c))
                            \<or> py_in (lower (cust_name c)) (lower name));
              employment_match = (cust_employment_type c = upper employment_type)
          in if name_match \<and> employment_match then (True, Some customer_id, Some c)
             else (False, Some customer_id, Some c))"

text \<open>The values of \<open>int(hashlib.md5(id.encode()).hexdigest(), 16)\<close> at the ten
  identifiers of the registry, tabulated (any other identifier is mapped to 0 here).\<close>

definition md5_registry_ids :: "string \<Rightarrow> nat" where
  "md5_registry_ids s =
     (if s = ''CUST001'' then 17353460874379043977677572086838236667
      else if s = ''CUST002'' then 281560206588290886696915981366361855201
      else if s = ''CUST003'' then 92884367192139789840377003801529385397
      else if s = ''CUST004'' then 313433076333302052915518458294224256750
      else if s = ''CUST005'' then 157711754654435980280213196562086857606
      else if s = ''CUST006'' then 10478134299624570788728731450126216974
      else if s = ''CUST007'' then 340188160300815829726732661077006883421
      else if s = ''CUST008'' then 81726907042080350544593565904806181414
      else if s = ''CUST009'' then 154836321744765824252803954455272379655
      else if s = ''CUST010'' then 273933176413707115746955546709048435245
      else 0)"

subsection \<open>agents/verification_agent.py\<close>

datatype KYCStatus = KYC_PENDING | KYC_VERIFIED | KYC_FAILED

record VerificationOutput =
  kyc_status :: KYCStatus
  vo_employment_type :: string
  vo_monthly_income :: real
  risk_flags :: "string list"

record verification_input =
  vi_name :: "string option"
  vi_pan :: "string option"
  vi_employment_type :: "string option"

text \<open>\<open>re.match(r'^[A-Z]{5}\d{4}[A-Z]$', pan)\<close>: ten characters of the three classes,
  where \<open>$\<close> also matches just before one final newline.\<close>

definition pan_shape :: "string \<Rightarrow> bool" where
  "pan_shape s =
     (length s = 10
      \<and> list_all is_upper_AZ (take 5 s)
      \<and> list_all is_digit (take 4 (drop 5 s))
      \<and> list_all is_upper_AZ (drop 9 s))"

definition validate_pan_format :: "string \<Rightarrow> bool" where
  "validate_pan_format pan =
     (pan_shape pan \<or> (length pan = 11 \<and> drop 10 pan = [CHR 0x0A] \<and> pan_shape (take 10 pan)))"

text \<open>\<open>input_data.get(key, "")\<close>.\<close>

definition get_or_empty :: "string option \<Rightarrow> string" where
  "get_or_empty v = (case v of None \<Rightarrow> [] | Some s \<Rightarrow> s)"

text \<open>\<open>VerificationAgent.execute\<close>. The second component of the result is the list of
  calls made to the registry (\<open>crm_service.verify_customer\<close>), in order: each entry is
  the identifier looked up. The two entries the method writes into its \<open>context\<close>
  argument are left out: the orchestrator passes a fresh dictionary and never reads it.\<close>

definition VerificationAgent_execute ::
  "crm_db \<Rightarrow> verification_input \<Rightarrow> (error + VerificationOutput) \<times> string list" where
  "VerificationAgent_execute db input_data =
     (let name = strip (get_or_empty (vi_name input_data));
          pan = upper (strip (get_or_empty (vi_pan input_data)));
          employment_type = upper (strip (get_or_empty (vi_employment_type input_data)))
      in if name = [] \<or> pan = [] \<or> employment_type = []
           then (Inl (ValueError ''Missing required fields: name, pan, employment_type''), [])
         else if \<not> validate_pan_format pan
           then (Inr \<lparr> kyc_status = KYC_FAILED,
                       vo_employment_type = ''UNKNOWN'',
                       vo_monthly_income = 0,
                       risk_flags = [''INVALID_PAN_FORMAT''] \<rparr>, [])
         else
           (case verify_customer db name pan employment_type of
              (is_valid, customer_id, customer_data) \<Rightarrow>
                (case customer_data of
                   None \<Rightarrow>
                     (Inr \<lparr> kyc_status = KYC_FAILED,
                            vo_employment_type = employment_type,
                            vo_monthly_income = 0,
                            risk_flags = [''CUSTOMER_NOT_FOUND''] \<rparr>, [pan])
                 | Some c \<Rightarrow>
                     if \<not> is_valid
                       then (Inr \<lparr> kyc_status = KYC_FAILED,
                                   vo_employment_type = employment_type,
                                   vo_monthly_income = 0,
                                   risk_flags = [''DATA_MISMATCH''] \<rparr>, [pan])
                     else
                       let monthly_income = cust_monthly_income c;
                           flags1 = (if monthly_income < 25000 then [''LOW_INCOME''] else []);
                           flags2 = (if cust_employment_type c \<noteq> employment_type
                                     then flags1 @ [''EMPLOYMENT_TYPE_MISMATCH''] else flags1)
                       in (Inr \<lparr> kyc_status = KYC_VERIFIED,
                                 vo_employment_type = cust_employment_type c,
                                 vo_monthly_income = of_int monthly_income,
                                 risk_flags = flags2 \<rparr>, [pan]))))"

subsection \<open>agents/sanction_agent.py\<close>

record SanctionOutput =
  letter_path :: string
  sanction_id :: string
  validity_days :: int

record sanction_input =
  sn_session_id :: string
  sn_customer_name :: "string option"
  sn_customer_id :: "string option"
  sn_approved_amount :: int
  sn_tenure_months :: int
  sn_final_interest_rate :: real
  sn_estimated_emi :: real
  sn_risk_grade :: string

text \<open>
  \<open>SanctionAgent.execute\<close>. Building \<open>SanctionInput(**input_data)\<close> fails when a field
  declared \<open>str\<close> is \<open>None\<close>. \<open>generate_sanction_letter\<close> writes a PDF and draws a
  random identifier; its outcome \<open>pdf\<close> (an exception, or the file path and the sanction
  id) is a parameter. The \<open>metadata\<close> dictionary of the output is left out.
\<close>

definition SanctionAgent_execute ::
  "(error + string \<times> string) \<Rightarrow> sanction_input \<Rightarrow> error + SanctionOutput" where
  "SanctionAgent_execute pdf input_data =
     (if sn_customer_name input_data = None \<or> sn_customer_id input_data = None
        then Inl ValidationError
      else
        (case pdf of
           Inl e \<Rightarrow> Inl e
         | Inr (file_path, sid) \<Rightarrow>
             Inr \<lparr> letter_path = file_path, sanction_id = sid, validity_days = 30 \<rparr>))"

subsection \<open>models/state.py and services/state_manager.py\<close>

datatype ConversationStage = SALES | KYC | UNDERWRITING | SANCTION | COMPLETED | FAILED

text \<open>
  The texts sent to the customer are f-strings with formatted numbers; each one is a
  constructor here, named after the \<open>return\<close> it stands for and carrying the values the
  text interpolates. \<open>UwErrorMsg e\<close> is \<open>f"Error during underwriting: {str(e)}"\<close> and
  \<open>SanctionErrorMsg e\<close> is \<open>f"Error generating sanction letter: {str(e)}"\<close>; the two
  approval texts end with the reply of the sanction handler, appended after a blank line.
\<close>

datatype reply =
    NoActiveSession
  | SessionNotFound
  | WelcomeMsg
  | UnclearSales
  | UnclearKyc
  | UnclearOther
  | CompletedMsg
  | FailedMsg
  | SalesQuoteMsg SalesOutput
  | SalesErrorMsg
  | SalesNeedInfo "string list"
  | KycFailedMsg "string list"
  | KycErrorMsg
  | KycNeedDetails
  | UwMissingData
  | UwRejectedMsg int
  | UwConditionalMsg UnderwritingOutput int reply
  | UwApprovedMsg UnderwritingOutput reply
  | UwErrorMsg error
  | SanctionMissingData
  | SanctionDoneMsg SanctionOutput real
  | SanctionErrorMsg error

text \<open>The exception texts a reply shows to the customer.\<close>

fun shown_errors :: "reply \<Rightarrow> error list" where
  "shown_errors (UwErrorMsg e) = [e]"
| "shown_errors (SanctionErrorMsg e) = [e]"
| "shown_errors (UwConditionalMsg out req r) = shown_errors r"
| "shown_errors (UwApprovedMsg out r) = shown_errors r"
| "shown_errors r = []"

datatype msg_content = CustomerText string | SystemText reply

record Message =
  role :: string
  content :: msg_content

text \<open>\<open>ConversationState\<close>, without the two timestamps.\<close>

record ConversationState =
  session_id :: string
  current_stage :: ConversationStage
  customer_id :: "string option"
  customer_name :: "string option"
  sales_data :: "SalesOutput option"
  kyc_data :: "VerificationOutput option"
  underwriting_data :: "UnderwritingOutput option"
  sanction_letter_path :: "string option"
  conversation_history :: "Message list"

text \<open>
  What the orchestrator reads and writes: the session files of the state manager (one
  per session id), the state transitions appended to the audit trail (session, stage
  left --- \<open>None\<close> for the \<open>"NONE"\<close> of a new session --- stage entered, reason), and the
  orchestrator's own \<open>current_session_id\<close>. The execution records of the audit trail
  are left out.
\<close>

type_synonym transition_entry = "string \<times> ConversationStage option \<times> ConversationStage \<times> string"

record system_state =
  sessions :: "string \<rightharpoonup> ConversationState"
  audit_transitions :: "transition_entry list"
  current_session_id :: "string option"

definition initial_system :: system_state where
  "initial_system =
     \<lparr> sessions = Map.empty, audit_transitions = [], current_session_id = None \<rparr>"

definition save_state :: "system_state \<Rightarrow> ConversationState \<Rightarrow> system_state" where
  "save_state w st = w\<lparr> sessions := (sessions w)(session_id st \<mapsto> st) \<rparr>"

definition load_state :: "system_state \<Rightarrow> string \<Rightarrow> ConversationState option" where
  "load_state w sid = sessions w sid"

definition create_session :: "system_state \<Rightarrow> string \<Rightarrow> system_state" where
  "create_session w sid =
     save_state w
       \<lparr> session_id = sid, current_stage = SALES, customer_id = None, customer_name = None,
         sales_data = None, kyc_data = None, underwriting_data = None,
         sanction_letter_path = None, conversation_history = [] \<rparr>"

definition add_message :: "system_state \<Rightarrow> string \<Rightarrow> string \<Rightarrow> msg_content \<Rightarrow> system_state" where
  "add_message w sid r c =
     (case load_state w sid of
        None \<Rightarrow> w
      | Some st \<Rightarrow>
          save_state w
            (st\<lparr> conversation_history :=
                   conversation_history st @ [\<lparr> role = r, content = c \<rparr>] \<rparr>))"

definition log_state_transition ::
  "system_state \<Rightarrow> string \<Rightarrow> ConversationStage option \<Rightarrow> ConversationStage \<Rightarrow> string
     \<Rightarrow> system_state" where
  "log_state_transition w sid from_stage to_stage reason =
     w\<lparr> audit_transitions := audit_transitions w @ [(sid, from_stage, to_stage, reason)] \<rparr>"

subsection \<open>services/llm_interface.py, as far as the orchestrator depends on it\<close>

text \<open>
  One customer turn: the text, what the intent classifier and the entity extractor
  answer for it, and the outcome of the PDF generator should the turn reach it. The
  classifier and the extractor are regular-expression or LLM based; their answers are
  inputs here, apart from the rule both classifier paths share: a stage with no valid
  intent is answered with intent \<open>none\<close> and no clarification.
\<close>

record turn =
  user_message :: string
  nlu_intent :: string
  nlu_requires_clarification :: bool
  ent_amount :: "int option"
  ent_tenure_months :: "int option"
  ent_pan :: "string option"
  pdf_result :: "error + string \<times> string"

definition STAGE_INTENTS :: "ConversationStage \<Rightarrow> string list" where
  "STAGE_INTENTS stage =
     (case stage of
        SALES \<Rightarrow> [''provide_loan_amount'', ''provide_tenure'', ''confirm_loan_details'',
                  ''modify_loan_request'']
      | KYC \<Rightarrow> [''provide_pan'', ''provide_employment'', ''provide_income'', ''confirm_kyc'']
      | UNDERWRITING \<Rightarrow> []
      | SANCTION \<Rightarrow> [''download_letter'', ''accept_offer'', ''request_modification'']
      | COMPLETED \<Rightarrow> []
      | FAILED \<Rightarrow> [])"

definition detect_intent :: "turn \<Rightarrow> ConversationStage \<Rightarrow> string \<times> bool" where
  "detect_intent t stage =
     (if STAGE_INTENTS stage = [] then (''none'', False)
      else (nlu_intent t, nlu_requires_clarification t))"

subsection \<open>agents/master_agent.py\<close>

text \<open>
  The handlers work on the state object loaded at the start of the turn and write it
  back with \<open>save_state\<close>; each takes the system state and the state object and
  returns both with the reply. A worker is called through \<open>BaseAgent.run\<close>, which
  records the execution and raises again what the worker raised, so a call of \<open>run\<close>
  is the worker's \<open>execute\<close> here. A \<open>try\<close> with \<open>except Exception\<close> is the case
  distinction on the worker's result. Reading and writing the session and audit files
  is taken to succeed. The last \<open>return\<close> of \<open>_process_by_stage\<close> is behind an
  exhaustive chain of \<open>elif\<close> over the six stages and has no counterpart.
\<close>

definition transition_stage ::
  "system_state \<Rightarrow> ConversationState \<Rightarrow> ConversationStage \<Rightarrow> string
     \<Rightarrow> system_state \<times> ConversationState" where
  "transition_stage w st new_stage reason =
     (let old_stage = current_stage st;
          st' = st\<lparr> current_stage := new_stage \<rparr>;
          w' = save_state w st'
      in (log_state_transition w' (session_id st') (Some old_stage) new_stage reason, st'))"

definition handle_sanction_stage ::
  "turn \<Rightarrow> system_state \<Rightarrow> ConversationState \<Rightarrow> system_state \<times> ConversationState \<times> reply" where
  "handle_sanction_stage t w st =
     (case underwriting_data st of
        None \<Rightarrow> (w, st, SanctionMissingData)
      | Some ud \<Rightarrow>
          (case sales_data st of
             None \<Rightarrow> (w, st, SanctionErrorMsg AttributeError)
           | Some sd \<Rightarrow>
               (case calculate_emi (of_int (approved_amount ud)) (final_interest_rate ud)
                       (so_tenure_months sd) of
                  Inl e \<Rightarrow> (w, st, SanctionErrorMsg e)
                | Inr final_emi \<Rightarrow>
                    (case SanctionAgent_execute (pdf_result t)
                            \<lparr> sn_session_id = session_id st,
                              sn_customer_name = customer_name st,
                              sn_customer_id = customer_id st,
                              sn_approved_amount = approved_amount ud,
                              sn_tenure_months = so_tenure_months sd,
                              sn_final_interest_rate = final_interest_rate ud,
                              sn_estimated_emi = final_emi,
                              sn_risk_grade = risk_grade ud \<rparr> of
                       Inl e \<Rightarrow> (w, st, SanctionErrorMsg e)
                     | Inr sanction_output \<Rightarrow>
                         let st1 = st\<lparr> sanction_letter_path :=
                                          Some (letter_path sanction_output) \<rparr>;
                             w1 = save_state w st1;
                             (w2, st2) = transition_stage w1 st1 COMPLETED
                                           ''Sanction letter generated''
                         in (w2, st2, SanctionDoneMsg sanction_output final_emi)))))"

definition handle_underwriting_stage ::
  "(string \<Rightarrow> nat) \<Rightarrow> turn \<Rightarrow> system_state \<Rightarrow> ConversationState
     \<Rightarrow> system_state \<times> ConversationState \<times> reply" where
  "handle_underwriting_stage md5 t w st =
     (case (sales_data st, kyc_data st) of
        (Some sd, Some kd) \<Rightarrow>
          (case UnderwritingAgent_execute md5
                  \<lparr> uw_customer_id = customer_id st,
                    uw_requested_amount = Some (so_requested_amount sd),
                    uw_tenure_months = Some (so_tenure_months sd),
                    uw_monthly_income = Some (vo_monthly_income kd),
                    uw_estimated_emi = Some (so_estimated_emi sd) \<rparr> of
             Inl e \<Rightarrow> (w, st, UwErrorMsg e)
           | Inr underwriting_output \<Rightarrow>
               let st1 = st\<lparr> underwriting_data := Some underwriting_output \<rparr>;
                   w1 = save_state w st1
               in if decision underwriting_output = REJECTED then
                    (let (w2, st2) = transition_stage w1 st1 FAILED ''Loan rejected''
                     in (w2, st2, UwRejectedMsg (credit_score underwriting_output)))
                  else if decision underwriting_output = CONDITIONAL then
                    (let (w2, st2) = transition_stage w1 st1 SANCTION ''Conditional approval'';
                         (w3, st3, sanction_response) = handle_sanction_stage t w2 st2
                     in (w3, st3, UwConditionalMsg underwriting_output
                                    (so_requested_amount sd) sanction_response))
                  else
                    (let (w2, st2) = transition_stage w1 st1 SANCTION ''Loan approved'';
                         (w3, st3, sanction_response) = handle_sanction_stage t w2 st2
                     in (w3, st3, UwApprovedMsg underwriting_output sanction_response)))
      | _ \<Rightarrow> (w, st, UwMissingData))"

text \<open>The two word loops of the KYC handler. The words come from \<open>split\<close> and are
  never empty, so \<open>word[0]\<close> is always defined there.\<close>

fun find_employment_type :: "string list \<Rightarrow> string option" where
  "find_employment_type [] = None"
| "find_employment_type (word # rest) =
     (if upper word \<in> set [''SALARIED'', ''SELF_EMPLOYED'', ''BUSINESS''] then Some (upper word)
      else if py_in ''EMPLOYED'' (upper word) then Some ''SELF_EMPLOYED''
      else find_employment_type rest)"

fun collect_name_parts :: "string list \<Rightarrow> string list \<Rightarrow> string list" where
  "collect_name_parts name_parts [] = name_parts"
| "collect_name_parts name_parts (word # rest) =
     (let name_parts' =
            (if (case word of [] \<Rightarrow> False | c # cs \<Rightarrow> is_upper_AZ c)
                \<and> length word > 1 \<and> \<not> isupper word
             then name_parts @ [word] else name_parts)
      in if length name_parts' \<ge> 2 then name_parts'
         else collect_name_parts name_parts' rest)"

definition handle_kyc_stage ::
  "crm_db \<Rightarrow> (string \<Rightarrow> nat) \<Rightarrow> turn \<Rightarrow> system_state \<Rightarrow> ConversationState
     \<Rightarrow> system_state \<times> ConversationState \<times> reply" where
  "handle_kyc_stage db md5 t w st =
     (let words = split (user_message t);
          pan = ent_pan t;
          employment_type = find_employment_type words;
          name_parts = collect_name_parts [] words;
          name = (if name_parts = [] then None else Some (join '' '' name_parts))
      in if truthy_str name \<and> truthy_str pan \<and> truthy_str employment_type then
           (case fst (VerificationAgent_execute db
                        \<lparr> vi_name = name, vi_pan = pan, vi_employment_type = employment_type \<rparr>) of
              Inl e \<Rightarrow> (w, st, KycErrorMsg)
            | Inr verification_output \<Rightarrow>
                if kyc_status verification_output = KYC_FAILED then
                  (let (w1, st1) = transition_stage w st FAILED ''KYC verification failed''
                   in (w1, st1, KycFailedMsg (risk_flags verification_output)))
                else
                  (let st1 = st\<lparr> kyc_data := Some verification_output \<rparr>
                   in case lookup_by_pan db (the pan) of
                        None \<Rightarrow> (w, st1, KycErrorMsg)
                      | Some (cid, c) \<Rightarrow>
                          let st2 = st1\<lparr> customer_id := Some cid, customer_name := name \<rparr>;
                              w2 = save_state w st2;
                              (w3, st3) = transition_stage w2 st2 UNDERWRITING ''KYC verified''
                          in handle_underwriting_stage md5 t w3 st3))
         else (w, st, KycNeedDetails))"

definition handle_sales_stage ::
  "turn \<Rightarrow> system_state \<Rightarrow> ConversationState \<Rightarrow> system_state \<times> ConversationState \<times> reply" where
  "handle_sales_stage t w st =
     (if ent_amount t \<noteq> None \<and> ent_tenure_months t \<noteq> None then
        (case SalesAgent_execute
                \<lparr> si_requested_amount = ent_amount t, si_tenure_months = ent_tenure_months t \<rparr> of
           Inl e \<Rightarrow> (w, st, SalesErrorMsg)
         | Inr sales_output \<Rightarrow>
             let st1 = st\<lparr> sales_data := Some sales_output \<rparr>;
                 w1 = save_state w st1;
                 (w2, st2) = transition_stage w1 st1 KYC ''Sales data collected''
             in (w2, st2, SalesQuoteMsg sales_output))
      else
        (w, st, SalesNeedInfo
                  ((if ent_amount t = None then [''loan amount''] else [])
                   @ (if ent_tenure_months t = None then [''tenure''] else []))))"

definition handle_unclear_intent :: "ConversationState \<Rightarrow> reply" where
  "handle_unclear_intent st =
     (if current_stage st = SALES then UnclearSales
      else if current_stage st = KYC then UnclearKyc
      else UnclearOther)"

definition process_by_stage ::
  "crm_db \<Rightarrow> (string \<Rightarrow> nat) \<Rightarrow> turn \<Rightarrow> system_state \<Rightarrow> ConversationState
     \<Rightarrow> system_state \<times> ConversationState \<times> reply" where
  "process_by_stage db md5 t w st =
     (case current_stage st of
        SALES \<Rightarrow> handle_sales_stage t w st
      | KYC \<Rightarrow> handle_kyc_stage db md5 t w st
      | UNDERWRITING \<Rightarrow> handle_underwriting_stage md5 t w st
      | SANCTION \<Rightarrow> handle_sanction_stage t w st
      | COMPLETED \<Rightarrow> (w, st, CompletedMsg)
      | FAILED \<Rightarrow> (w, st, FailedMsg))"

definition process_message ::
  "crm_db \<Rightarrow> (string \<Rightarrow> nat) \<Rightarrow> turn \<Rightarrow> system_state \<Rightarrow> system_state \<times> reply" where
  "process_message db md5 t w =
     (case current_session_id w of
        None \<Rightarrow> (w, NoActiveSession)
      | Some sid \<Rightarrow>
          (case load_state w sid of
             None \<Rightarrow> (w, SessionNotFound)
           | Some st \<Rightarrow>
               let w1 = add_message w sid ''customer'' (CustomerText (user_message t));
                   (intent, requires_clarification) = detect_intent t (current_stage st);
                   (w2, st2, response) =
                      (if requires_clarification then (w1, st, handle_unclear_intent st)
                       else process_by_stage db md5 t w1 st);
                   w3 = add_message w2 sid ''system'' (SystemText response)
               in (w3, response)))"

text \<open>\<open>start_conversation\<close>; \<open>sid\<close> is the identifier drawn from \<open>uuid4\<close>.\<close>

definition start_conversation :: "string \<Rightarrow> system_state \<Rightarrow> system_state \<times> reply" where
  "start_conversation sid w =
     (let w1 = w\<lparr> current_session_id := Some sid \<rparr>;
          w2 = create_session w1 sid;
          w3 = log_state_transition w2 sid None SALES ''New conversation started'';
          w4 = add_message w3 sid ''system'' (SystemText WelcomeMsg)
      in (w4, WelcomeMsg))"

text \<open>A conversation: a new session, then customer turns one after the other.\<close>

definition run_turns :: "crm_db \<Rightarrow> (string \<Rightarrow> nat) \<Rightarrow> system_state \<Rightarrow> turn list \<Rightarrow> system_state" where
  "run_turns db md5 w ts = foldl (\<lambda>w t. fst (process_message db md5 t w)) w ts"

definition conversation :: "crm_db \<Rightarrow> (string \<Rightarrow> nat) \<Rightarrow> string \<Rightarrow> turn list \<Rightarrow> system_state" where
  "conversation db md5 sid ts = run_turns db md5 (fst (start_conversation sid initial_system)) ts"

definition stage_of :: "system_state \<Rightarrow> string \<Rightarrow> ConversationStage option" where
  "stage_of w sid = map_option current_stage (sessions w sid)"

subsection \<open>The specification's wording, for comparison with the code\<close>

text \<open>The bracket table of the specification (section 4.2, step 4).\<close>

definition spec_max_eligible :: "int \<Rightarrow> real \<Rightarrow> int" where
  "spec_max_eligible score income =
     (if 750 \<le> score \<and> 75000 \<le> income then 2000000
      else if 700 \<le> score \<and> 50000 \<le> income then 1000000
      else 500000)"

text \<open>The decision and the approved principal as the specification words them
  (section 4.2, steps 2, 3 and 5).\<close>

definition spec_eligibility :: "int \<Rightarrow> real \<Rightarrow> int \<Rightarrow> real \<Rightarrow> UnderwritingDecision \<times> int" where
  "spec_eligibility score income requested emi =
     (if score < 700 then (REJECTED, 0)
      else if 50 / 100 * income < emi then (REJECTED, 0)
      else if spec_max_eligible score income < requested
        then (CONDITIONAL, spec_max_eligible score income)
      else (APPROVED, requested))"

text \<open>The tenure adjustment as the specification words it: 0.2 for every full year of
  tenure beyond three years, never negative.\<close>

definition spec_tenure_adjustment :: "int \<Rightarrow> real" where
  "spec_tenure_adjustment tenure_months = 0.2 * of_int (max 0 (tenure_months div 12 - 3))"

text \<open>Clamping to the closed interval of the specification.\<close>

definition clamp_rate :: "real \<Rightarrow> real" where
  "clamp_rate x = max 9.5 (min 18.0 x)"


text \<open>The order of the stages, and the stage changes the specification allows: one step
  along the chain, or from a stage that is not terminal into \<open>FAILED\<close>.\<close>

fun stage_rank :: "ConversationStage \<Rightarrow> nat" where
  "stage_rank SALES = 0"
| "stage_rank KYC = 1"
| "stage_rank UNDERWRITING = 2"
| "stage_rank SANCTION = 3"
| "stage_rank COMPLETED = 4"
| "stage_rank FAILED = 5"

definition terminal :: "ConversationStage \<Rightarrow> bool" where
  "terminal s = (s = COMPLETED \<or> s = FAILED)"

definition allowed_transition :: "ConversationStage \<Rightarrow> ConversationStage \<Rightarrow> bool" where
  "allowed_transition a b =
     (\<not> terminal a \<and> (b = FAILED \<or> stage_rank b = Suc (stage_rank a)))"

text \<open>\<open>stage_path sid a es b\<close>: the audit entries \<open>es\<close> all belong to session \<open>sid\<close> and
  lead from stage \<open>a\<close> to stage \<open>b\<close> by allowed transitions only.\<close>

fun stage_path ::
  "string \<Rightarrow> ConversationStage \<Rightarrow> transition_entry list \<Rightarrow> ConversationStage \<Rightarrow> bool" where
  "stage_path sid a [] b = (a = b)"
| "stage_path sid a ((s, from_stage, to_stage, reason) # es) b =
     (s = sid \<and> from_stage = Some a \<and> allowed_transition a to_stage
      \<and> stage_path sid to_stage es b)"

text \<open>No step back: the stage stays, or a stage that is not terminal is left for a later
  one or for \<open>FAILED\<close>.\<close>

definition stage_advances :: "ConversationStage \<Rightarrow> ConversationStage \<Rightarrow> bool" where
  "stage_advances a b =
     (a = b \<or> (\<not> terminal a \<and> (b = FAILED \<or> stage_rank a < stage_rank b)))"

subsection \<open>Example conversations\<close>

text \<open>
  The turns of two conversations of examples/failure\_cases.py and
  examples/happy\_path.py, with the answers the rule-based classifier and extractor
  give for them. In the last one the PDF generator fails with an I/O error.
\<close>

definition example_session :: string where
  "example_session = ''sess_3f2a9c1b''"

definition turn_loan_3_lakhs :: turn where
  "turn_loan_3_lakhs =
     \<lparr> user_message = ''I need 3 lakhs for 2 years'', nlu_intent = ''provide_tenure'',
       nlu_requires_clarification = False, ent_amount = Some 300000,
       ent_tenure_months = Some 24, ent_pan = None,
       pdf_result = Inr (''outputs/sanction_letters/sess_3f2a9c1b.pdf'', ''SL202501011A2B3C'') \<rparr>"

definition turn_kyc_meera :: turn where
  "turn_kyc_meera =
     \<lparr> user_message = ''Meera Nair, PAN YZABC8901D, SALARIED'', nlu_intent = ''provide_pan'',
       nlu_requires_clarification = False, ent_amount = None,
       ent_tenure_months = None, ent_pan = Some ''YZABC8901D'',
       pdf_result = Inr (''outputs/sanction_letters/sess_3f2a9c1b.pdf'', ''SL202501011A2B3C'') \<rparr>"

definition turn_loan_5_lakhs :: turn where
  "turn_loan_5_lakhs =
     \<lparr> user_message = ''I need 5 lakhs for 3 years'', nlu_intent = ''provide_tenure'',
       nlu_requires_clarification = False, ent_amount = Some 500000,
       ent_tenure_months = Some 36, ent_pan = None,
       pdf_result = Inr (''outputs/sanction_letters/sess_3f2a9c1b.pdf'', ''SL202501011A2B3C'') \<rparr>"

definition turn_kyc_priya_pdf_fails :: turn where
  "turn_kyc_priya_pdf_fails =
     \<lparr> user_message = ''Priya Sharma, PAN FGHIJ5678K, SALARIED'', nlu_intent = ''provide_pan'',
       nlu_requires_clarification = False, ent_amount = None,
       ent_tenure_months = None, ent_pan = Some ''FGHIJ5678K'',
       pdf_result = Inl (CollaboratorError ''[Errno 28] No space left on device'') \<rparr>"

subsection \<open>Invariants of the orchestrator\<close>

text \<open>Every session file holds the state of the session it is named after.\<close>

definition well_keyed :: "system_state \<Rightarrow> bool" where
  "well_keyed w = (\<forall>k p. sessions w k = Some p \<longrightarrow> session_id p = k)"

text \<open>The state object a handler works on and the session file agree on the session
  and on the stage.\<close>

definition synced :: "system_state \<Rightarrow> ConversationState \<Rightarrow> bool" where
  "synced w st =
     (case sessions w (session_id st) of
        None \<Rightarrow> False
      | Some p \<Rightarrow> session_id p = session_id st \<and> current_stage p = current_stage st)"

text \<open>
  What a handler guarantees: it stays with its session, the file and the state object
  still agree afterwards, the audit trail has grown by a path of allowed transitions
  from the old stage to the new one, and no other session and not the orchestrator's
  session id have changed.
\<close>

definition handler_post ::
  "system_state \<Rightarrow> ConversationState \<Rightarrow> system_state \<times> ConversationState \<times> reply \<Rightarrow> bool" where
  "handler_post w st res =
     (case res of (w', st', r) \<Rightarrow>
        session_id st' = session_id st
        \<and> synced w' st'
        \<and> take (length (audit_transitions w)) (audit_transitions w') = audit_transitions w
        \<and> stage_path (session_id st) (current_stage st)
             (drop (length (audit_transitions w)) (audit_transitions w')) (current_stage st')
        \<and> current_session_id w' = current_session_id w
        \<and> (\<forall>k. k \<noteq> session_id st \<longrightarrow> sessions w' k = sessions w k))"

section \<open>Underwriting: eligibility\<close>

lemma eligibility_pair:
  "(fst (evaluate_eligibility s i r e), fst (snd (evaluate_eligibility s i r e)))
     = spec_eligibility s i r e"
  by (simp add: evaluate_eligibility_def spec_eligibility_def spec_max_eligible_def Let_def)

text \<open>
  Claim C1. For every credit score, monthly income, requested principal and indicative
  EMI, the decision and the approved amount computed by \<open>_evaluate_eligibility\<close> are
  those of the specification's definition \<open>spec_eligibility\<close> (reject below 700, reject
  when the EMI exceeds half the income, otherwise the bracket table decides between
  CONDITIONAL at the maximum and APPROVED at the requested amount). And for every
  underwriting input whose five fields are present and non-zero, the underwriting
  agent returns an output whose decision and approved amount are the specification's
  at the fetched credit score.
\<close>

theorem C1_eligibility_matches_spec:
  "(fst (evaluate_eligibility s i r e), fst (snd (evaluate_eligibility s i r e)))
     = spec_eligibility s i r e
   \<and> (cid \<noteq> [] \<and> r \<noteq> 0 \<and> n \<noteq> 0 \<and> i \<noteq> 0 \<and> e \<noteq> 0 \<longrightarrow>
        (\<exists>out. UnderwritingAgent_execute md5
                  \<lparr> uw_customer_id = Some cid, uw_requested_amount = Some r,
                    uw_tenure_months = Some n, uw_monthly_income = Some i,
                    uw_estimated_emi = Some e \<rparr> = Inr out
               \<and> credit_score out = get_credit_score md5 cid
               \<and> (decision out, approved_amount out)
                    = spec_eligibility (get_credit_score md5 cid) i r e))"
proof (intro conjI impI)
  show "(fst (evaluate_eligibility s i r e), fst (snd (evaluate_eligibility s i r e)))
     = spec_eligibility s i r e"
    by (rule eligibility_pair)
next
  assume ok: "cid \<noteq> [] \<and> r \<noteq> 0 \<and> n \<noteq> 0 \<and> i \<noteq> 0 \<and> e \<noteq> 0"
  let ?sc = "get_credit_score md5 cid"
  obtain d a rs where ev: "evaluate_eligibility ?sc i r e = (d, a, rs)"
    by (cases "evaluate_eligibility ?sc i r e") auto
  have "(d, a) = spec_eligibility ?sc i r e"
    using eligibility_pair [of ?sc i r e] ev by simp
  then show "\<exists>out. UnderwritingAgent_execute md5
                  \<lparr> uw_customer_id = Some cid, uw_requested_amount = Some r,
                    uw_tenure_months = Some n, uw_monthly_income = Some i,
                    uw_estimated_emi = Some e \<rparr> = Inr out
               \<and> credit_score out = get_credit_score md5 cid
               \<and> (decision out, approved_amount out)
                    = spec_eligibility (get_credit_score md5 cid) i r e"
    using ok ev
    by (simp add: UnderwritingAgent_execute_def truthy_str_def truthy_int_def
          truthy_real_def Let_def)
qed

text \<open>The theorem at the registry's second customer (score 825, income 95,000) asking
  for 500,000 over 36 months, and the bracket decision of the specification's second
  scenario (score 710, income 55,000, request 1,500,000).\<close>

theorem C1_eligibility_witness:
  "(fst (evaluate_eligibility 710 55000 1500000 20000),
    fst (snd (evaluate_eligibility 710 55000 1500000 20000))) = (CONDITIONAL, 1000000)
   \<and> (\<exists>out. UnderwritingAgent_execute md5_registry_ids
                  \<lparr> uw_customer_id = Some ''CUST002'', uw_requested_amount = Some 500000,
                    uw_tenure_months = Some 36, uw_monthly_income = Some 95000,
                    uw_estimated_emi = Some 16786.83 \<rparr> = Inr out
               \<and> credit_score out = 825
               \<and> (decision out, approved_amount out) = (APPROVED, 500000))"
  using C1_eligibility_matches_spec
          [of 710 55000 1500000 20000 "''CUST002''" 36 md5_registry_ids]
        C1_eligibility_matches_spec
          [of 825 95000 500000 "16786.83" "''CUST002''" 36 md5_registry_ids]
  by (simp add: spec_eligibility_def spec_max_eligible_def get_credit_score_def
        md5_registry_ids_def)

section \<open>Rounding\<close>

lemma round_half_even_of_int [simp]: "round_half_even (of_int k) = k"
  by (simp add: round_half_even_def)

lemma round_half_even_ge: "of_int k \<le> x \<Longrightarrow> k \<le> round_half_even x"
proof -
  assume "of_int k \<le> x"
  then have "k \<le> \<lfloor>x\<rfloor>" by (simp add: le_floor_iff)
  then show ?thesis by (simp add: round_half_even_def Let_def)
qed

lemma round_half_even_le: "x \<le> of_int k \<Longrightarrow> round_half_even x \<le> k"
proof (cases "x = of_int k")
  case True
  then show ?thesis by simp
next
  case False
  assume "x \<le> of_int k"
  with False have "x < of_int k" by simp
  then have "\<lfloor>x\<rfloor> < k" by (simp add: floor_less_iff)
  then show ?thesis by (simp add: round_half_even_def Let_def)
qed

lemma py_round2_ge: "of_int k / 100 \<le> x \<Longrightarrow> of_int k / 100 \<le> py_round2 x"
  using round_half_even_ge [of k "x * 100"]
  by (simp add: py_round2_def divide_le_eq le_divide_eq)

lemma py_round2_le: "x \<le> of_int k / 100 \<Longrightarrow> py_round2 x \<le> of_int k / 100"
  using round_half_even_le [of "x * 100" k]
  by (simp add: py_round2_def divide_le_eq le_divide_eq)

lemma py_round2_hundredths [simp]: "py_round2 (of_int k / 100) = of_int k / 100"
  by (simp add: py_round2_def)

lemma py_round2_clamp: "py_round2 (clamp_rate x) = clamp_rate (py_round2 x)"
proof -
  have r_lo: "py_round2 9.5 = 9.5" using py_round2_hundredths [of 950] by simp
  have r_hi: "py_round2 18 = 18" using py_round2_hundredths [of 1800] by simp
  consider "x \<le> 9.5" | "9.5 < x" "x < 18" | "18 \<le> x" by linarith
  then show ?thesis
  proof cases
    case 1
    then have "py_round2 x \<le> 9.5" using py_round2_le [of x 950] by simp
    then have c1: "clamp_rate (py_round2 x) = 9.5"
      by (simp add: clamp_rate_def max_def min_def)
    have c2: "clamp_rate x = 9.5" using 1 by (simp add: clamp_rate_def max_def min_def)
    show ?thesis unfolding c1 c2 by (rule r_lo)
  next
    case 2
    then have "9.5 \<le> py_round2 x" "py_round2 x \<le> 18"
      using py_round2_ge [of 950 x] py_round2_le [of x 1800] by simp_all
    then have c1: "clamp_rate (py_round2 x) = py_round2 x"
      by (simp add: clamp_rate_def max_def min_def)
    have c2: "clamp_rate x = x" using 2 by (simp add: clamp_rate_def max_def min_def)
    show ?thesis unfolding c1 c2 by (rule refl)
  next
    case 3
    then have "18 \<le> py_round2 x" using py_round2_ge [of 1800 x] by simp
    then have c1: "clamp_rate (py_round2 x) = 18"
      by (simp add: clamp_rate_def max_def min_def)
    have c2: "clamp_rate x = 18" using 3 by (simp add: clamp_rate_def max_def min_def)
    show ?thesis unfolding c1 c2 by (rule r_hi)
  qed
qed

lemma clamp_rate_bounds: "9.5 \<le> clamp_rate x \<and> clamp_rate x \<le> 18"
  by (simp add: clamp_rate_def max_def min_def)

lemma apply_rate_bounds_clamp: "apply_rate_bounds x = py_round2 (clamp_rate x)"
  by (simp add: apply_rate_bounds_def clamp_rate_def MIN_INTEREST_RATE_def MAX_INTEREST_RATE_def)


section \<open>Underwriting: the tenure adjustment\<close>

lemma tenure_adjustment_eq:
  "tenure_adjustment (calculate_rate_components score t) = py_round2 (0.2 * max 0 (of_int t / 12 - 3))"
  by (simp add: calculate_rate_components_def Let_def)


text \<open>
  Claim C2, as the code has it. For every credit score and tenure in months, the tenure
  adjustment of the rate composition is 0.2 times the years of tenure beyond three,
  counted pro rata by the month (\<open>0.2 * max(0, tenure_months / 12 - 3)\<close>) and rounded
  to two decimals. It is never negative, it is 0 for every tenure of at most 36 months,
  it is positive for every longer tenure, and at whole years of tenure it is the
  specification's 0.2 per full year beyond three.
\<close>

theorem C2_tenure_adjustment_pro_rata:
  "tenure_adjustment (calculate_rate_components score t)
      = py_round2 (0.2 * max 0 (of_int t / 12 - 3))
   \<and> 0 \<le> tenure_adjustment (calculate_rate_components score t)
   \<and> (t \<le> 36 \<longrightarrow> tenure_adjustment (calculate_rate_components score t) = 0)
   \<and> (36 < t \<longrightarrow> 0 < tenure_adjustment (calculate_rate_components score t))
   \<and> (t mod 12 = 0 \<longrightarrow>
        tenure_adjustment (calculate_rate_components score t) = spec_tenure_adjustment t)"
proof (intro conjI impI)
  let ?raw = "0.2 * max 0 (real_of_int t / 12 - 3)"
  show "tenure_adjustment (calculate_rate_components score t) = py_round2 ?raw"
    by (rule tenure_adjustment_eq)
  have "of_int 0 / 100 \<le> ?raw" by simp
  then have "of_int 0 / 100 \<le> py_round2 ?raw" by (rule py_round2_ge)
  then show "0 \<le> tenure_adjustment (calculate_rate_components score t)"
    by (simp add: tenure_adjustment_eq)
  {
    assume "t \<le> 36"
    then have "?raw = of_int 0 / 100" by (simp add: max_def)
    then show "tenure_adjustment (calculate_rate_components score t) = 0"
      using py_round2_hundredths [of 0] by (simp add: tenure_adjustment_eq)
  }
  {
    assume "36 < t"
    then have "37 \<le> real_of_int t" by linarith
    then have "of_int 1 / 100 \<le> ?raw" by (simp add: max_def)
    then have "of_int 1 / 100 \<le> py_round2 ?raw" by (rule py_round2_ge)
    then show "0 < tenure_adjustment (calculate_rate_components score t)"
      by (simp add: tenure_adjustment_eq)
  }
  {
    assume m: "t mod 12 = 0"
    then obtain k where k: "t = 12 * k" by (auto simp: mod_eq_0_iff_dvd)
    have "?raw = of_int (20 * max 0 (k - 3)) / 100"
      using k by (simp add: max_def)
    then have "py_round2 ?raw = of_int (20 * max 0 (k - 3)) / 100"
      using py_round2_hundredths [of "20 * max 0 (k - 3)"] by simp
    then show "tenure_adjustment (calculate_rate_components score t) = spec_tenure_adjustment t"
      using k by (simp add: tenure_adjustment_eq spec_tenure_adjustment_def max_def)
  }
qed


text \<open>The theorem at 48 months (one full year beyond three), at 24 months and at 37
  months.\<close>

theorem C2_tenure_adjustment_witness:
  "tenure_adjustment (calculate_rate_components 760 48) = 0.2
   \<and> tenure_adjustment (calculate_rate_components 760 24) = 0
   \<and> 0 < tenure_adjustment (calculate_rate_components 760 37)"
  using C2_tenure_adjustment_pro_rata [of 760 48] C2_tenure_adjustment_pro_rata [of 760 24] C2_tenure_adjustment_pro_rata [of 760 37]
  by (simp add: spec_tenure_adjustment_def)


text \<open>
  Claim C2 as stated fails: a tenure of 42 months lies between 36 and 47 months, and the
  code charges 0.1 for its half year beyond three years, where the rule of 0.2 per full
  year gives 0.
\<close>

theorem C2_tenure_adjustment_counterexample:
  "tenure_adjustment (calculate_rate_components 760 42) = 0.1
   \<and> spec_tenure_adjustment 42 = 0
   \<and> tenure_adjustment (calculate_rate_components 760 42) \<noteq> spec_tenure_adjustment 42"
  by (simp add: calculate_rate_components_def py_round2_def round_half_even_def Let_def spec_tenure_adjustment_def)

section \<open>Underwriting: the final interest rate\<close>

text \<open>
  Claim C3. For every underwriting input whose five fields are present and non-zero,
  the agent returns an output whose rate components are the base 11.0 and the two
  adjustments, each already rounded to two decimals, and whose final rate is the sum
  of the three, clamped to the interval from 9.5 to 18.0 and rounded to two decimals.
  Rounding the clamped sum and clamping the rounded sum give the same rate, so that
  the clamp can be read as the last step, and the final rate always lies in the
  interval.
\<close>

theorem C3_final_rate:
  "cid \<noteq> [] \<and> r \<noteq> 0 \<and> n \<noteq> 0 \<and> i \<noteq> 0 \<and> e \<noteq> 0 \<longrightarrow>
     (\<exists>out. UnderwritingAgent_execute md5
               \<lparr> uw_customer_id = Some cid, uw_requested_amount = Some r,
                 uw_tenure_months = Some n, uw_monthly_income = Some i,
                 uw_estimated_emi = Some e \<rparr> = Inr out
            \<and> rate_comps out = calculate_rate_components (get_credit_score md5 cid) n
            \<and> base (rate_comps out) = 11.0
            \<and> credit_adjustment (rate_comps out)
                = py_round2 (if get_credit_score md5 cid > 700
                             then - 0.5 * of_int ((get_credit_score md5 cid - 700) div 50)
                             else 0)
            \<and> tenure_adjustment (rate_comps out)
                = py_round2 (0.2 * max 0 (of_int n / 12 - 3))
            \<and> final_interest_rate out
                = py_round2 (clamp_rate (base (rate_comps out) + credit_adjustment (rate_comps out)
                                          + tenure_adjustment (rate_comps out)))
            \<and> final_interest_rate out
                = clamp_rate (py_round2 (base (rate_comps out) + credit_adjustment (rate_comps out)
                                          + tenure_adjustment (rate_comps out)))
            \<and> 9.5 \<le> final_interest_rate out \<and> final_interest_rate out \<le> 18.0)"
proof
  assume ok: "cid \<noteq> [] \<and> r \<noteq> 0 \<and> n \<noteq> 0 \<and> i \<noteq> 0 \<and> e \<noteq> 0"
  let ?sc = "get_credit_score md5 cid"
  let ?rc = "calculate_rate_components ?sc n"
  let ?x = "base ?rc + credit_adjustment ?rc + tenure_adjustment ?rc"
  obtain d a rs where ev: "evaluate_eligibility ?sc i r e = (d, a, rs)"
    by (cases "evaluate_eligibility ?sc i r e") auto
  define out where "out = \<lparr> decision = d, approved_amount = a, credit_score = ?sc,
     rate_comps = ?rc, final_interest_rate = apply_rate_bounds (BASE_RATE + credit_adjustment ?rc + tenure_adjustment ?rc),
     risk_grade = calculate_risk_grade ?sc \<rparr>"
  have ex: "UnderwritingAgent_execute md5
               \<lparr> uw_customer_id = Some cid, uw_requested_amount = Some r,
                 uw_tenure_months = Some n, uw_monthly_income = Some i,
                 uw_estimated_emi = Some e \<rparr> = Inr out"
    using ok ev
    by (simp add: UnderwritingAgent_execute_def truthy_str_def truthy_int_def
          truthy_real_def Let_def out_def)
  have b: "base ?rc = BASE_RATE" by (simp add: calculate_rate_components_def Let_def)
  have rc: "rate_comps out = ?rc" by (simp add: out_def)
  have f1: "final_interest_rate out = py_round2 (clamp_rate ?x)"
    by (simp add: out_def apply_rate_bounds_clamp b)
  have f2: "final_interest_rate out = clamp_rate (py_round2 ?x)"
    unfolding f1 by (rule py_round2_clamp)
  have bnd: "9.5 \<le> final_interest_rate out \<and> final_interest_rate out \<le> 18.0"
    unfolding f2 using clamp_rate_bounds [of "py_round2 ?x"] by simp
  have b11: "base (rate_comps out) = 11.0" unfolding rc b by (simp add: BASE_RATE_def)
  have ca: "credit_adjustment (rate_comps out)
                = py_round2 (if ?sc > 700 then - 0.5 * of_int ((?sc - 700) div 50) else 0)"
    unfolding rc by (simp add: calculate_rate_components_def Let_def)
  have ta: "tenure_adjustment (rate_comps out) = py_round2 (0.2 * max 0 (of_int n / 12 - 3))"
    unfolding rc by (rule tenure_adjustment_eq)
  show "\<exists>out. UnderwritingAgent_execute md5
               \<lparr> uw_customer_id = Some cid, uw_requested_amount = Some r,
                 uw_tenure_months = Some n, uw_monthly_income = Some i,
                 uw_estimated_emi = Some e \<rparr> = Inr out
            \<and> rate_comps out = calculate_rate_components (get_credit_score md5 cid) n
            \<and> base (rate_comps out) = 11.0
            \<and> credit_adjustment (rate_comps out)
                = py_round2 (if get_credit_score md5 cid > 700
                             then - 0.5 * of_int ((get_credit_score md5 cid - 700) div 50)
                             else 0)
            \<and> tenure_adjustment (rate_comps out)
                = py_round2 (0.2 * max 0 (of_int n / 12 - 3))
            \<and> final_interest_rate out
                = py_round2 (clamp_rate (base (rate_comps out) + credit_adjustment (rate_comps out)
                                          + tenure_adjustment (rate_comps out)))
            \<and> final_interest_rate out
                = clamp_rate (py_round2 (base (rate_comps out) + credit_adjustment (rate_comps out)
                                          + tenure_adjustment (rate_comps out)))
            \<and> 9.5 \<le> final_interest_rate out \<and> final_interest_rate out \<le> 18.0"
    apply (rule exI [of _ out])
    using ex rc b11 ca ta f1 f2 bnd by (simp only: simp_thms)
qed


text \<open>The theorem at the registry's second customer (score 825) and 36 months: the
  adjustments are -1 and 0, the final rate is 10.\<close>

lemma rc_825_36: "calculate_rate_components 825 36 = \<lparr> base = 11, credit_adjustment = -1, tenure_adjustment = 0 \<rparr>"
  by (simp add: calculate_rate_components_def Let_def BASE_RATE_def py_round2_def round_half_even_def)

theorem C3_final_rate_witness:
  "\<exists>out. UnderwritingAgent_execute md5_registry_ids
               \<lparr> uw_customer_id = Some ''CUST002'', uw_requested_amount = Some 500000,
                 uw_tenure_months = Some 36, uw_monthly_income = Some 95000,
                 uw_estimated_emi = Some 16786.83 \<rparr> = Inr out
          \<and> rate_comps out = \<lparr> base = 11, credit_adjustment = -1, tenure_adjustment = 0 \<rparr>
          \<and> final_interest_rate out = 10"
proof -
  have sc: "get_credit_score md5_registry_ids ''CUST002'' = 825"
    by (simp add: get_credit_score_def md5_registry_ids_def)
  have r10: "py_round2 (clamp_rate 10) = 10"
    by (simp add: clamp_rate_def py_round2_def round_half_even_def)
  show ?thesis
    using C3_final_rate [of "''CUST002''" 500000 36 95000 "16786.83" md5_registry_ids]
    by (auto simp add: sc rc_825_36 r10)
qed

section \<open>The EMI calculator\<close>

lemma calculate_emi_exact:
  "calculate_emi p r n =
     (if n = 0 then Inr 0
      else if r / 1200 = 0 then Inr (p / of_int n)
      else
        (case py_float_pow (1 + r / 1200) n of
           Inl e \<Rightarrow> Inl e
         | Inr pw \<Rightarrow>
             if pw - 1 = 0 then Inl ZeroDivisionError
             else Inr (py_round2 (p * (r / 1200) * pw / (pw - 1)))))"
  by (simp add: calculate_emi_def calculate_emi_with_def exact_arith_def Let_def
        split: sum.splits)

lemma calculate_emi_no_value_error: "calculate_emi p r n \<noteq> Inl (ValueError msg)"
  by (auto simp add: calculate_emi_exact py_float_pow_def split: sum.splits if_splits)











section \<open>The KYC validator\<close>

lemma upper_eq_Nil [simp]: "(upper s = []) = (s = [])"
  by (simp add: upper_def)

lemma strip_last_not_space: "strip s \<noteq> [] \<Longrightarrow> \<not> py_isspace (last (strip s))"
proof -
  let ?t = "dropWhile py_isspace (rev (dropWhile py_isspace s))"
  assume "strip s \<noteq> []"
  then have ne: "?t \<noteq> []" by (simp add: strip_def)
  then have "\<not> py_isspace (hd ?t)" by (rule hd_dropWhile)
  moreover have "last (strip s) = hd ?t" using ne by (simp add: strip_def last_rev)
  ultimately show ?thesis by simp
qed

lemma upper_char_newline: "upper_char c = CHR 0x0A \<Longrightarrow> c = CHR 0x0A"
proof (cases "is_lower_az c")
  case False
  assume "upper_char c = CHR 0x0A"
  with False show ?thesis by (simp add: upper_char_def)
next
  case True
  assume a: "upper_char c = CHR 0x0A"
  from True have "65 \<le> (of_char c :: nat) - 32" "(of_char c :: nat) - 32 \<le> 90"
    by (auto simp add: is_lower_az_def)
  moreover from a True have "of_char (char_of ((of_char c :: nat) - 32) :: char) = (10::nat)"
    by (simp add: upper_char_def)
  ultimately show ?thesis by (simp add: of_char_of)
qed

lemma validate_pan_format_strip:
  "validate_pan_format (upper (strip s)) = pan_shape (upper (strip s))"
proof -
  have "\<not> (length (upper (strip s)) = 11 \<and> drop 10 (upper (strip s)) = [CHR 0x0A])"
  proof
    assume a: "length (upper (strip s)) = 11 \<and> drop 10 (upper (strip s)) = [CHR 0x0A]"
    then have ne: "strip s \<noteq> []" by (auto simp: upper_def)
    from a have "last (upper (strip s)) = CHR 0x0A"
      by (metis last_drop last.simps lessI numeral_eq_Suc pred_numeral_simps(3) Suc_lessD
           less_Suc_eq add_2_eq_Suc' numeral_Bit0 numeral_Bit1 numeral_One)
    then have "upper_char (last (strip s)) = CHR 0x0A" using ne by (simp add: upper_def last_map)
    then have "last (strip s) = CHR 0x0A" by (rule upper_char_newline)
    moreover have "py_isspace (CHR 0x0A)" by (simp add: py_isspace_def)
    ultimately show False using strip_last_not_space [OF ne] by simp
  qed
  then show ?thesis by (auto simp add: validate_pan_format_def)
qed


lemma upper_char_idem: "upper_char (upper_char c) = upper_char c"
proof (cases "is_lower_az c")
  case False
  then show ?thesis by (simp add: upper_char_def)
next
  case True
  then have "(of_char c :: nat) - 32 < 97" by (auto simp add: is_lower_az_def)
  then have "\<not> is_lower_az (char_of ((of_char c :: nat) - 32))"
    by (simp add: is_lower_az_def of_char_of)
  with True show ?thesis by (simp add: upper_char_def)
qed

lemma upper_idem: "upper (upper s) = upper s"
  by (simp add: upper_def upper_char_idem)

lemma verified_result_shape:
  assumes "VerificationAgent_execute db inp = (Inr out, calls)"
    and "kyc_status out = KYC_VERIFIED"
  shows "(\<exists>cid c. lookup_by_pan db (upper (strip (get_or_empty (vi_pan inp)))) = Some (cid, c)
           \<and> cust_employment_type c = upper (strip (get_or_empty (vi_employment_type inp)))
           \<and> vo_employment_type out = cust_employment_type c
           \<and> vo_monthly_income out = of_int (cust_monthly_income c))
         \<and> risk_flags out = (if vo_monthly_income out < 25000 then [''LOW_INCOME''] else [])
         \<and> calls = [upper (strip (get_or_empty (vi_pan inp)))]"
proof -
  let ?pan = "upper (strip (get_or_empty (vi_pan inp)))"
  let ?emp = "upper (strip (get_or_empty (vi_employment_type inp)))"
  let ?name = "strip (get_or_empty (vi_name inp))"
  from assms have ne: "?name \<noteq> []" "?pan \<noteq> []" "?emp \<noteq> []"
    and fmt: "validate_pan_format ?pan"
    by (auto simp add: VerificationAgent_execute_def Let_def split: if_splits)
  obtain v cid_opt c_opt where vc: "verify_customer db ?name ?pan ?emp = (v, cid_opt, c_opt)"
    by (cases "verify_customer db ?name ?pan ?emp") auto
  from assms ne fmt vc obtain c where c: "c_opt = Some c" and v: "v"
    by (auto simp add: VerificationAgent_execute_def Let_def split: if_splits option.splits)
  from vc c v obtain cid where lk: "lookup_by_pan db ?pan = Some (cid, c)"
    and em: "cust_employment_type c = upper ?emp"
    by (auto simp add: verify_customer_def Let_def split: if_splits option.splits prod.splits)
  from em have em': "cust_employment_type c = ?emp" by (simp add: upper_idem)
  from assms ne fmt vc c v em' have
    "out = \<lparr> kyc_status = KYC_VERIFIED, vo_employment_type = cust_employment_type c,
             vo_monthly_income = of_int (cust_monthly_income c),
             risk_flags = (if cust_monthly_income c < 25000 then [''LOW_INCOME''] else []) \<rparr>"
    and cl: "calls = [?pan]"
    by (auto simp add: VerificationAgent_execute_def Let_def)
  with lk em' show ?thesis by auto
qed

text \<open>
  Claim C10. For every KYC input in which the name, the PAN or the employment type is
  absent or empty after trimming, the validator raises the ValueError of its first
  check --- it returns no result, FAILED or other --- and makes no call to the
  registry.
\<close>

theorem C10_missing_fields_raise:
  "strip (get_or_empty (vi_name inp)) = []
     \<or> strip (get_or_empty (vi_pan inp)) = []
     \<or> strip (get_or_empty (vi_employment_type inp)) = []
   \<longrightarrow> VerificationAgent_execute db inp
        = (Inl (ValueError ''Missing required fields: name, pan, employment_type''), [])"
  by (simp add: VerificationAgent_execute_def Let_def)


text \<open>The theorem on an input without a PAN and on an input whose name is blank.\<close>

theorem C10_missing_fields_witness:
  "VerificationAgent_execute CRM_DATABASE
      \<lparr> vi_name = Some ''Rajesh Kumar'', vi_pan = None, vi_employment_type = Some ''SALARIED'' \<rparr>
     = (Inl (ValueError ''Missing required fields: name, pan, employment_type''), [])
   \<and> VerificationAgent_execute CRM_DATABASE
      \<lparr> vi_name = Some ''  '', vi_pan = Some ''ABCDE1234F'', vi_employment_type = Some ''SALARIED'' \<rparr>
     = (Inl (ValueError ''Missing required fields: name, pan, employment_type''), [])"
  using C10_missing_fields_raise
          [of "\<lparr> vi_name = Some ''Rajesh Kumar'', vi_pan = None,
                 vi_employment_type = Some ''SALARIED'' \<rparr>" CRM_DATABASE]
        C10_missing_fields_raise
          [of "\<lparr> vi_name = Some ''  '', vi_pan = Some ''ABCDE1234F'',
                 vi_employment_type = Some ''SALARIED'' \<rparr>" CRM_DATABASE]
  by (simp add: get_or_empty_def strip_def py_isspace_def)


text \<open>
  Claim C6, as the code has it. For every KYC input whose name, PAN and employment type
  are all non-empty after trimming and whose PAN, made of ASCII characters, is not five
  letters, four digits and one letter once trimmed and upper-cased, the validator
  returns a FAILED result whose risk flags are exactly \<open>["INVALID_PAN_FORMAT"]\<close>, and
  makes no call to the registry. (On ASCII characters the case conversion of the
  embedding is the one of the code.)
\<close>

theorem C6_invalid_pan:
  "strip (get_or_empty (vi_name inp)) \<noteq> []
     \<and> strip (get_or_empty (vi_pan inp)) \<noteq> []
     \<and> strip (get_or_empty (vi_employment_type inp)) \<noteq> []
     \<and> list_all is_ascii (get_or_empty (vi_pan inp))
     \<and> \<not> pan_shape (upper (strip (get_or_empty (vi_pan inp))))
   \<longrightarrow> VerificationAgent_execute db inp
        = (Inr \<lparr> kyc_status = KYC_FAILED, vo_employment_type = ''UNKNOWN'',
                  vo_monthly_income = 0, risk_flags = [''INVALID_PAN_FORMAT''] \<rparr>, [])"
  by (simp add: VerificationAgent_execute_def Let_def validate_pan_format_strip)


text \<open>The theorem on the identifier \<open>INVALID123\<close> of the specification's scenario.\<close>

theorem C6_invalid_pan_witness:
  "VerificationAgent_execute CRM_DATABASE
      \<lparr> vi_name = Some ''John Doe'', vi_pan = Some ''INVALID123'',
        vi_employment_type = Some ''SALARIED'' \<rparr>
     = (Inr \<lparr> kyc_status = KYC_FAILED, vo_employment_type = ''UNKNOWN'',
               vo_monthly_income = 0, risk_flags = [''INVALID_PAN_FORMAT''] \<rparr>, [])"
  using C6_invalid_pan
          [of "\<lparr> vi_name = Some ''John Doe'', vi_pan = Some ''INVALID123'',
                 vi_employment_type = Some ''SALARIED'' \<rparr>" CRM_DATABASE]
  by (simp add: get_or_empty_def strip_def py_isspace_def pan_shape_def upper_def
        upper_char_def is_lower_az_def is_upper_AZ_def is_digit_def is_ascii_def)


text \<open>
  Claim C6 as stated fails: a blank identifier does not have the PAN format either, and
  for it the validator raises ValueError instead of returning a FAILED result.
\<close>

theorem C6_invalid_pan_counterexample:
  "\<not> pan_shape (upper (strip ''  ''))
   \<and> VerificationAgent_execute CRM_DATABASE
        \<lparr> vi_name = Some ''John Doe'', vi_pan = Some ''  '',
          vi_employment_type = Some ''SALARIED'' \<rparr>
      = (Inl (ValueError ''Missing required fields: name, pan, employment_type''), [])"
  by (simp add: VerificationAgent_execute_def Let_def get_or_empty_def strip_def
        py_isspace_def pan_shape_def upper_def)


text \<open>
  Claim C7 at the first customer of the registry (Rajesh Kumar, \<open>ABCDE1234F\<close>,
  registered as SALARIED) stating BUSINESS: the registry's cross-check already fails on
  the employment type, and the validator returns FAILED with \<open>DATA_MISMATCH\<close>. By
  \<open>verified_result_shape\<close> above, a VERIFIED result always has the registry's
  employment type equal to the stated one, and its flags are \<open>LOW_INCOME\<close> or none:
  the branch that appends \<open>EMPLOYMENT_TYPE_MISMATCH\<close> is never taken.
\<close>

theorem C7_employment_mismatch_fails:
  "VerificationAgent_execute CRM_DATABASE
      \<lparr> vi_name = Some ''Rajesh Kumar'', vi_pan = Some ''ABCDE1234F'',
        vi_employment_type = Some ''BUSINESS'' \<rparr>
     = (Inr \<lparr> kyc_status = KYC_FAILED, vo_employment_type = ''BUSINESS'',
               vo_monthly_income = 0, risk_flags = [''DATA_MISMATCH''] \<rparr>, [''ABCDE1234F''])"
  by (simp add: VerificationAgent_execute_def Let_def get_or_empty_def strip_def
        py_isspace_def validate_pan_format_def pan_shape_def upper_def lower_def
        upper_char_def lower_char_def is_lower_az_def is_upper_AZ_def is_digit_def
        verify_customer_def CRM_DATABASE_def)

section \<open>The requirement collector\<close>

lemma mid_13_15: "get_mid_rate ''13% - 15%'' = 14"
  by (simp add: get_mid_rate_def is_digit_def py_float_def digits_to_nat_def)

lemma emi_neg: "calculate_emi (- 100000) 14 12 = Inr (- 8978.71)"
  by (simp add: calculate_emi_exact py_float_pow_def DBL_RANGE_def py_round2_def
        round_half_even_def Let_def power_divide)

text \<open>
  Claim C9, as the code has it. For every input to the sales agent in which the
  principal or the tenure is absent or zero, the computation raises the ValueError of
  its first check and produces no quote. A principal and a tenure that are both present
  and different from zero --- negative values included --- pass that check: whatever
  the computation does then, it does not raise this validation error.
\<close>

theorem C9_sales_validation:
  "(a = None \<or> a = Some 0 \<or> t = None \<or> t = Some 0 \<longrightarrow>
      SalesAgent_execute \<lparr> si_requested_amount = a, si_tenure_months = t \<rparr>
        = Inl (ValueError ''Missing required fields: requested_amount and tenure_months''))
   \<and> (x \<noteq> 0 \<and> n \<noteq> 0 \<longrightarrow>
      SalesAgent_execute \<lparr> si_requested_amount = Some x, si_tenure_months = Some n \<rparr>
        \<noteq> Inl (ValueError ''Missing required fields: requested_amount and tenure_months''))"
proof (intro conjI impI)
  assume "a = None \<or> a = Some 0 \<or> t = None \<or> t = Some 0"
  then show "SalesAgent_execute \<lparr> si_requested_amount = a, si_tenure_months = t \<rparr>
        = Inl (ValueError ''Missing required fields: requested_amount and tenure_months'')"
    by (auto simp add: SalesAgent_execute_def truthy_int_def)
next
  assume nz: "x \<noteq> 0 \<and> n \<noteq> 0"
  let ?emi = "calculate_emi (of_int x) (get_mid_rate (get_interest_range x)) n"
  have "?emi \<noteq> Inl (ValueError ''Missing required fields: requested_amount and tenure_months'')"
    by (rule calculate_emi_no_value_error)
  with nz show "SalesAgent_execute \<lparr> si_requested_amount = Some x, si_tenure_months = Some n \<rparr>
        \<noteq> Inl (ValueError ''Missing required fields: requested_amount and tenure_months'')"
    by (cases ?emi) (simp_all add: SalesAgent_execute_def truthy_int_def Let_def)
qed

text \<open>The theorem on an input without tenure, on a principal of zero, and on a principal
  of -100,000 over 12 months.\<close>

theorem C9_sales_validation_witness:
  "SalesAgent_execute \<lparr> si_requested_amount = Some 500000, si_tenure_months = None \<rparr>
        = Inl (ValueError ''Missing required fields: requested_amount and tenure_months'')
   \<and> SalesAgent_execute \<lparr> si_requested_amount = Some 0, si_tenure_months = Some 36 \<rparr>
        = Inl (ValueError ''Missing required fields: requested_amount and tenure_months'')
   \<and> SalesAgent_execute \<lparr> si_requested_amount = Some (- 100000), si_tenure_months = Some 12 \<rparr>
        \<noteq> Inl (ValueError ''Missing required fields: requested_amount and tenure_months'')"
  using C9_sales_validation [of "Some 500000" None "- 100000" 12]
        C9_sales_validation [of "Some 0" "Some 36" "- 100000" 12]
  by simp

text \<open>
  Claim C9 as stated fails: a principal of -100,000 is non-positive, and the sales agent
  raises nothing and returns a quote for it, with a negative indicative EMI.
\<close>

theorem C9_sales_validation_counterexample:
  "SalesAgent_execute \<lparr> si_requested_amount = Some (- 100000), si_tenure_months = Some 12 \<rparr>
     = Inr \<lparr> so_requested_amount = - 100000, so_tenure_months = 12,
             so_estimated_emi = - 8978.71, so_interest_range = ''13% - 15%'' \<rparr>"
  by (simp add: SalesAgent_execute_def truthy_int_def Let_def get_interest_range_def mid_13_15 emi_neg)

section \<open>The orchestrator: stage transitions\<close>

subsection \<open>Paths of allowed transitions\<close>

lemma stage_path_append:
  "stage_path sid a es b \<Longrightarrow> stage_path sid b es' c \<Longrightarrow> stage_path sid a (es @ es') c"
  by (induction es arbitrary: a) auto

lemma stage_path_advances: "stage_path sid a es b \<Longrightarrow> stage_advances a b"
proof (induction es arbitrary: a)
  case Nil
  then show ?case by (simp add: stage_advances_def)
next
  case (Cons e es)
  obtain s f c reason where e: "e = (s, f, c, reason)" by (cases e) auto
  with Cons.prems have al: "allowed_transition a c" and rest: "stage_path sid c es b" by simp_all
  from Cons.IH [OF rest] have adv: "stage_advances c b" .
  from al adv show ?case
    by (cases a; cases c; cases b) (simp_all add: allowed_transition_def stage_advances_def terminal_def)
qed

lemma stage_advances_trans:
  "stage_advances a b \<Longrightarrow> stage_advances b c \<Longrightarrow> stage_advances a c"
  by (cases a; cases b; cases c) (simp_all add: stage_advances_def terminal_def)

lemma handler_post_refl: "synced w st \<Longrightarrow> handler_post w st (w, st, r)"
  by (simp add: handler_post_def)

lemma handler_post_reply: "handler_post w st (w', st', r) \<Longrightarrow> handler_post w st (w', st', r')"
  by (simp add: handler_post_def)

lemma handler_post_trans:
  assumes "handler_post w st (w1, st1, r1)" and "handler_post w1 st1 (w2, st2, r2)"
  shows "handler_post w st (w2, st2, r)"
proof -
  let ?n = "length (audit_transitions w)"
  let ?n1 = "length (audit_transitions w1)"
  define es1 where "es1 = drop ?n (audit_transitions w1)"
  define es2 where "es2 = drop ?n1 (audit_transitions w2)"
  from assms(1) have id1: "session_id st1 = session_id st"
    and a1: "take ?n (audit_transitions w1) = audit_transitions w"
    and p1: "stage_path (session_id st) (current_stage st) es1 (current_stage st1)"
    and c1: "current_session_id w1 = current_session_id w"
    and o1: "\<forall>k. k \<noteq> session_id st \<longrightarrow> sessions w1 k = sessions w k"
    by (simp_all add: handler_post_def es1_def)
  from assms(2) id1 have id2: "session_id st2 = session_id st"
    and sy2: "synced w2 st2"
    and a2: "take ?n1 (audit_transitions w2) = audit_transitions w1"
    and p2: "stage_path (session_id st) (current_stage st1) es2 (current_stage st2)"
    and c2: "current_session_id w2 = current_session_id w1"
    and o2: "\<forall>k. k \<noteq> session_id st \<longrightarrow> sessions w2 k = sessions w1 k"
    by (simp_all add: handler_post_def es2_def)
  have e1: "audit_transitions w1 = audit_transitions w @ es1"
    using a1 append_take_drop_id [of ?n "audit_transitions w1"] by (simp add: es1_def)
  have e2: "audit_transitions w2 = audit_transitions w1 @ es2"
    using a2 append_take_drop_id [of ?n1 "audit_transitions w2"] by (simp add: es2_def)
  have e: "audit_transitions w2 = audit_transitions w @ (es1 @ es2)" using e1 e2 by simp
  have "stage_path (session_id st) (current_stage st) (es1 @ es2) (current_stage st2)"
    using p1 p2 by (rule stage_path_append)
  then show ?thesis
    using id2 sy2 c1 c2 o1 o2 by (simp add: handler_post_def e)
qed

lemma handler_post_save:
  assumes "session_id st1 = session_id st" and "current_stage st1 = current_stage st"
  shows "handler_post w st (save_state w st1, st1, r)"
  using assms by (simp add: handler_post_def save_state_def synced_def)

lemma handler_post_update:
  assumes "synced w st" and "session_id st1 = session_id st"
    and "current_stage st1 = current_stage st"
  shows "handler_post w st (w, st1, r)"
  using assms by (auto simp add: handler_post_def synced_def split: option.splits)

lemma handler_post_transition:
  assumes "allowed_transition (current_stage st) new_stage"
    and "transition_stage w st new_stage reason = (w', st')"
  shows "handler_post w st (w', st', r) \<and> current_stage st' = new_stage"
  using assms
  by (auto simp add: handler_post_def transition_stage_def Let_def save_state_def
        log_state_transition_def synced_def)

lemma handle_sanction_post:
  assumes "synced w st" and "current_stage st = SANCTION"
  shows "handler_post w st (handle_sanction_stage t w st)"
  using assms
  by (auto simp add: handle_sanction_stage_def handler_post_def transition_stage_def
        save_state_def log_state_transition_def synced_def allowed_transition_def
        terminal_def Let_def
      split: option.splits sum.splits)

lemma save_then_transition:
  assumes "session_id st1 = session_id st" and "current_stage st1 = current_stage st"
    and "allowed_transition (current_stage st) new_stage"
    and "transition_stage (save_state w st1) st1 new_stage reason = (w2, st2)"
  shows "handler_post w st (w2, st2, r) \<and> current_stage st2 = new_stage"
proof -
  have h1: "handler_post w st (save_state w st1, st1, r)"
    using assms(1,2) by (rule handler_post_save)
  have h2: "handler_post (save_state w st1) st1 (w2, st2, r) \<and> current_stage st2 = new_stage"
    using assms(3,4) assms(2) handler_post_transition [of st1 new_stage "save_state w st1" reason w2 st2 r]
    by simp
  from handler_post_trans [OF h1 conjunct1 [OF h2]] h2 show ?thesis by simp
qed

lemma handle_underwriting_post:
  assumes "synced w st" and "current_stage st = UNDERWRITING"
  shows "handler_post w st (handle_underwriting_stage md5 t w st)"
proof (cases "sales_data st")
  case None
  with assms(1) show ?thesis by (simp add: handle_underwriting_stage_def handler_post_refl)
next
  case sd: (Some sd)
  show ?thesis
  proof (cases "kyc_data st")
    case None
    with sd assms(1) show ?thesis by (simp add: handle_underwriting_stage_def handler_post_refl)
  next
    case kd: (Some kd)
    let ?inp = "\<lparr> uw_customer_id = customer_id st,
                    uw_requested_amount = Some (so_requested_amount sd),
                    uw_tenure_months = Some (so_tenure_months sd),
                    uw_monthly_income = Some (vo_monthly_income kd),
                    uw_estimated_emi = Some (so_estimated_emi sd) \<rparr>"
    show ?thesis
    proof (cases "UnderwritingAgent_execute md5 ?inp")
      case (Inl e)
      with sd kd assms(1) show ?thesis
        by (simp add: handle_underwriting_stage_def handler_post_refl)
    next
      case (Inr out)
      let ?st1 = "st\<lparr> underwriting_data := Some out \<rparr>"
      let ?w1 = "save_state w ?st1"
      have al_f: "allowed_transition (current_stage st) FAILED"
        and al_s: "allowed_transition (current_stage st) SANCTION"
        using assms(2) by (simp_all add: allowed_transition_def terminal_def)
      show ?thesis
      proof (cases "decision out = REJECTED")
        case True
        obtain w2 st2 where tr: "transition_stage ?w1 ?st1 FAILED ''Loan rejected'' = (w2, st2)"
          by (cases "transition_stage ?w1 ?st1 FAILED ''Loan rejected''") auto
        have "handler_post w st (w2, st2, UwRejectedMsg (credit_score out))"
          using save_then_transition [OF _ _ al_f tr] by simp
        with sd kd Inr True tr show ?thesis
          by (simp add: handle_underwriting_stage_def Let_def)
      next
        case nrej: False
        have chain: "handler_post w st (w3, st3, r)"
          if tr: "transition_stage ?w1 ?st1 SANCTION reason = (w2, st2)"
            and sn: "handle_sanction_stage t w2 st2 = (w3, st3, r3)"
          for reason w2 st2 w3 st3 r3 r
        proof -
          have h1: "handler_post w st (w2, st2, r3) \<and> current_stage st2 = SANCTION"
            using save_then_transition [OF _ _ al_s tr] by simp
          then have "synced w2 st2" by (simp add: handler_post_def)
          with h1 have "handler_post w2 st2 (handle_sanction_stage t w2 st2)"
            by (simp add: handle_sanction_post)
          with sn have h2: "handler_post w2 st2 (w3, st3, r3)" by simp
          show ?thesis using handler_post_trans [OF conjunct1 [OF h1] h2] .
        qed
        show ?thesis
        proof (cases "decision out = CONDITIONAL")
          case True
          obtain w2 st2 where tr: "transition_stage ?w1 ?st1 SANCTION ''Conditional approval'' = (w2, st2)"
            by (cases "transition_stage ?w1 ?st1 SANCTION ''Conditional approval''") auto
          obtain w3 st3 r3 where sn: "handle_sanction_stage t w2 st2 = (w3, st3, r3)"
            by (cases "handle_sanction_stage t w2 st2") auto
          from sd kd Inr nrej True tr sn chain [OF tr sn] show ?thesis
            by (simp add: handle_underwriting_stage_def Let_def)
        next
          case False
          obtain w2 st2 where tr: "transition_stage ?w1 ?st1 SANCTION ''Loan approved'' = (w2, st2)"
            by (cases "transition_stage ?w1 ?st1 SANCTION ''Loan approved''") auto
          obtain w3 st3 r3 where sn: "handle_sanction_stage t w2 st2 = (w3, st3, r3)"
            by (cases "handle_sanction_stage t w2 st2") auto
          from sd kd Inr nrej False tr sn chain [OF tr sn] show ?thesis
            by (simp add: handle_underwriting_stage_def Let_def)
        qed
      qed
    qed
  qed
qed

lemma handle_sales_post:
  assumes "synced w st" and "current_stage st = SALES"
  shows "handler_post w st (handle_sales_stage t w st)"
proof (cases "ent_amount t \<noteq> None \<and> ent_tenure_months t \<noteq> None")
  case False
  with assms(1) show ?thesis by (auto simp add: handle_sales_stage_def handler_post_refl)
next
  case True
  let ?inp = "\<lparr> si_requested_amount = ent_amount t, si_tenure_months = ent_tenure_months t \<rparr>"
  show ?thesis
  proof (cases "SalesAgent_execute ?inp")
    case (Inl e)
    with True assms(1) show ?thesis by (simp add: handle_sales_stage_def handler_post_refl)
  next
    case (Inr so)
    let ?st1 = "st\<lparr> sales_data := Some so \<rparr>"
    have al: "allowed_transition (current_stage st) KYC"
      using assms(2) by (simp add: allowed_transition_def terminal_def)
    obtain w2 st2 where tr:
      "transition_stage (save_state w ?st1) ?st1 KYC ''Sales data collected'' = (w2, st2)"
      by (cases "transition_stage (save_state w ?st1) ?st1 KYC ''Sales data collected''") auto
    have "handler_post w st (w2, st2, SalesQuoteMsg so)"
      using save_then_transition [OF _ _ al tr] by simp
    with True Inr tr show ?thesis by (simp add: handle_sales_stage_def Let_def)
  qed
qed

lemma handle_kyc_post:
  assumes "synced w st" and "current_stage st = KYC"
  shows "handler_post w st (handle_kyc_stage db md5 t w st)"
proof -
  define words where "words = split (user_message t)"
  define name where "name = (if collect_name_parts [] words = [] then None
                            else Some (join '' '' (collect_name_parts [] words)))"
  define emp where "emp = find_employment_type words"
  let ?inp = "\<lparr> vi_name = name, vi_pan = ent_pan t, vi_employment_type = emp \<rparr>"
  have unf: "handle_kyc_stage db md5 t w st =
     (if truthy_str name \<and> truthy_str (ent_pan t) \<and> truthy_str emp then
           (case fst (VerificationAgent_execute db ?inp) of
              Inl e \<Rightarrow> (w, st, KycErrorMsg)
            | Inr verification_output \<Rightarrow>
                if kyc_status verification_output = KYC_FAILED then
                  (case transition_stage w st FAILED ''KYC verification failed'' of
                     (w1, st1) \<Rightarrow> (w1, st1, KycFailedMsg (risk_flags verification_output)))
                else
                  (case lookup_by_pan db (the (ent_pan t)) of
                        None \<Rightarrow> (w, st\<lparr> kyc_data := Some verification_output \<rparr>, KycErrorMsg)
                      | Some (cid, c) \<Rightarrow>
                          (case transition_stage
                                  (save_state w
                                     (st\<lparr> kyc_data := Some verification_output,
                                          customer_id := Some cid, customer_name := name \<rparr>))
                                  (st\<lparr> kyc_data := Some verification_output,
                                       customer_id := Some cid, customer_name := name \<rparr>)
                                  UNDERWRITING ''KYC verified'' of
                             (w3, st3) \<Rightarrow> handle_underwriting_stage md5 t w3 st3)))
         else (w, st, KycNeedDetails))"
    by (simp only: handle_kyc_stage_def Let_def words_def name_def emp_def)
  show ?thesis
  proof (cases "truthy_str name \<and> truthy_str (ent_pan t) \<and> truthy_str emp")
    case False
    with assms(1) show ?thesis unfolding unf by (auto simp add: handler_post_refl)
  next
    case ok: True
    show ?thesis
    proof (cases "fst (VerificationAgent_execute db ?inp)")
      case (Inl e)
      with ok assms(1) show ?thesis unfolding unf by (simp add: handler_post_refl)
    next
      case (Inr vo)
      show ?thesis
      proof (cases "kyc_status vo = KYC_FAILED")
        case True
        have al: "allowed_transition (current_stage st) FAILED"
          using assms(2) by (simp add: allowed_transition_def terminal_def)
        obtain w1 st1 where tr: "transition_stage w st FAILED ''KYC verification failed'' = (w1, st1)"
          by (cases "transition_stage w st FAILED ''KYC verification failed''") auto
        have "handler_post w st (w1, st1, KycFailedMsg (risk_flags vo))"
          using handler_post_transition [OF al tr] by simp
        with ok Inr True tr show ?thesis unfolding unf by simp
      next
        case nf: False
        let ?st1 = "st\<lparr> kyc_data := Some vo \<rparr>"
        show ?thesis
        proof (cases "lookup_by_pan db (the (ent_pan t))")
          case None
          have "handler_post w st (w, ?st1, KycErrorMsg)"
            using assms(1) by (simp add: handler_post_update)
          with ok Inr nf None show ?thesis unfolding unf by simp
        next
          case (Some found)
          obtain cid c where found: "found = (cid, c)" by (cases found) auto
          let ?st2 = "?st1\<lparr> customer_id := Some cid, customer_name := name \<rparr>"
          have al: "allowed_transition (current_stage st) UNDERWRITING"
            using assms(2) by (simp add: allowed_transition_def terminal_def)
          obtain w3 st3 where tr:
            "transition_stage (save_state w ?st2) ?st2 UNDERWRITING ''KYC verified'' = (w3, st3)"
            by (cases "transition_stage (save_state w ?st2) ?st2 UNDERWRITING ''KYC verified''") auto
          obtain w4 st4 r4 where uw: "handle_underwriting_stage md5 t w3 st3 = (w4, st4, r4)"
            by (cases "handle_underwriting_stage md5 t w3 st3") auto
          have h1: "handler_post w st (w3, st3, r4) \<and> current_stage st3 = UNDERWRITING"
            using save_then_transition [OF _ _ al tr] by simp
          then have "synced w3 st3" by (simp add: handler_post_def)
          with h1 have "handler_post w3 st3 (handle_underwriting_stage md5 t w3 st3)"
            by (simp add: handle_underwriting_post)
          with uw have h2: "handler_post w3 st3 (w4, st4, r4)" by simp
          have "handler_post w st (w4, st4, r4)"
            using handler_post_trans [OF conjunct1 [OF h1] h2] .
          with ok Inr nf Some found tr uw show ?thesis unfolding unf by simp
        qed
      qed
    qed
  qed
qed

lemma process_by_stage_post:
  assumes "synced w st"
  shows "handler_post w st (process_by_stage db md5 t w st)"
  using assms
  by (cases "current_stage st")
     (simp_all add: process_by_stage_def handle_sales_post handle_kyc_post
        handle_underwriting_post handle_sanction_post handler_post_refl)

lemma process_by_stage_terminal:
  assumes "terminal (current_stage st)"
  shows "process_by_stage db md5 t w st
           = (w, st, if current_stage st = COMPLETED then CompletedMsg else FailedMsg)"
  using assms by (auto simp add: process_by_stage_def terminal_def)

subsection \<open>One customer turn\<close>

lemma add_message_existing:
  assumes "sessions w sid = Some p" and "session_id p = sid"
  shows "add_message w sid r c
           = w\<lparr> sessions := (sessions w)(sid \<mapsto>
                   p\<lparr> conversation_history :=
                        conversation_history p @ [\<lparr> role = r, content = c \<rparr>] \<rparr>) \<rparr>"
  using assms by (simp add: add_message_def load_state_def save_state_def)

lemma detect_intent_terminal:
  "terminal stage \<Longrightarrow> detect_intent t stage = (''none'', False)"
  by (auto simp add: detect_intent_def STAGE_INTENTS_def terminal_def)

lemma process_message_step:
  assumes wk: "well_keyed w" and cs: "current_session_id w = Some sid"
    and ld: "sessions w sid = Some st"
  shows "\<exists>st'. sessions (fst (process_message db md5 t w)) sid = Some st'
           \<and> well_keyed (fst (process_message db md5 t w))
           \<and> current_session_id (fst (process_message db md5 t w)) = Some sid
           \<and> take (length (audit_transitions w))
                (audit_transitions (fst (process_message db md5 t w))) = audit_transitions w
           \<and> stage_path sid (current_stage st)
                (drop (length (audit_transitions w))
                   (audit_transitions (fst (process_message db md5 t w))))
                (current_stage st')
           \<and> (terminal (current_stage st) \<longrightarrow>
                 current_stage st' = current_stage st
                 \<and> snd (process_message db md5 t w)
                     = (if current_stage st = COMPLETED then CompletedMsg else FailedMsg))"
proof -
  from wk ld have sid: "session_id st = sid" by (simp add: well_keyed_def)
  define w1 where "w1 = add_message w sid ''customer'' (CustomerText (user_message t))"
  have w1: "w1 = w\<lparr> sessions := (sessions w)(sid \<mapsto>
                   st\<lparr> conversation_history := conversation_history st
                        @ [\<lparr> role = ''customer'', content = CustomerText (user_message t) \<rparr>] \<rparr>) \<rparr>"
    unfolding w1_def using ld sid by (rule add_message_existing)
  have sy1: "synced w1 st" using sid by (simp add: w1 synced_def)
  obtain intent rc where di: "detect_intent t (current_stage st) = (intent, rc)"
    by (cases "detect_intent t (current_stage st)") auto
  define res where "res = (if rc then (w1, st, handle_unclear_intent st)
                           else process_by_stage db md5 t w1 st)"
  have hp: "handler_post w1 st res"
    using sy1 by (simp add: res_def handler_post_refl process_by_stage_post)
  obtain w2 st2 r where res: "res = (w2, st2, r)" by (cases res) auto
  define w3 where "w3 = add_message w2 sid ''system'' (SystemText r)"
  have pm: "process_message db md5 t w = (w3, r)"
    using cs ld di res
    by (simp add: process_message_def load_state_def Let_def w1_def [symmetric]
          res_def [symmetric] w3_def)
  from hp res sid have id2: "session_id st2 = sid" and sy2: "synced w2 st2"
    and tk: "take (length (audit_transitions w1)) (audit_transitions w2) = audit_transitions w1"
    and sp: "stage_path sid (current_stage st)
               (drop (length (audit_transitions w1)) (audit_transitions w2)) (current_stage st2)"
    and cs2: "current_session_id w2 = current_session_id w1"
    and oth: "\<forall>k. k \<noteq> sid \<longrightarrow> sessions w2 k = sessions w1 k"
    by (simp_all add: handler_post_def)
  from sy2 id2 obtain p where p: "sessions w2 sid = Some p" "session_id p = sid"
    "current_stage p = current_stage st2"
    by (auto simp add: synced_def split: option.splits)
  have w3: "w3 = w2\<lparr> sessions := (sessions w2)(sid \<mapsto>
                   p\<lparr> conversation_history := conversation_history p
                        @ [\<lparr> role = ''system'', content = SystemText r \<rparr>] \<rparr>) \<rparr>"
    unfolding w3_def using p(1,2) by (rule add_message_existing)
  have a1: "audit_transitions w1 = audit_transitions w" by (simp add: w1)
  have a3: "audit_transitions w3 = audit_transitions w2" by (simp add: w3)
  have wk3: "well_keyed w3"
    using wk oth p(2) by (auto simp add: well_keyed_def w3 w1)
  have trm: "terminal (current_stage st) \<longrightarrow>
                 current_stage st2 = current_stage st
                 \<and> r = (if current_stage st = COMPLETED then CompletedMsg else FailedMsg)"
  proof
    assume tm: "terminal (current_stage st)"
    with di have "rc = False" by (simp add: detect_intent_terminal)
    with res have "process_by_stage db md5 t w1 st = (w2, st2, r)" by (simp add: res_def)
    with tm show "current_stage st2 = current_stage st
                 \<and> r = (if current_stage st = COMPLETED then CompletedMsg else FailedMsg)"
      by (auto simp add: process_by_stage_terminal)
  qed
  show ?thesis
    apply (rule exI [of _ "p\<lparr> conversation_history := conversation_history p
                        @ [\<lparr> role = ''system'', content = SystemText r \<rparr>] \<rparr>"])
    using wk3 cs cs2 tk sp trm p(3)
    by (simp add: pm a1 a3) (simp add: w3 w1)
qed

lemma start_conversation_inv:
  "well_keyed (fst (start_conversation sid initial_system))
   \<and> current_session_id (fst (start_conversation sid initial_system)) = Some sid
   \<and> stage_of (fst (start_conversation sid initial_system)) sid = Some SALES"
  by (simp add: start_conversation_def initial_system_def create_session_def save_state_def
        log_state_transition_def add_message_def load_state_def well_keyed_def stage_of_def Let_def)

lemma run_turns_snoc:
  "run_turns db md5 w (ts @ [t]) = fst (process_message db md5 t (run_turns db md5 w ts))"
  by (simp add: run_turns_def)

lemma conversation_snoc:
  "conversation db md5 sid (ts @ [t])
     = fst (process_message db md5 t (conversation db md5 sid ts))"
  by (simp add: conversation_def run_turns_snoc)

lemma conversation_inv:
  "well_keyed (conversation db md5 sid ts)
   \<and> current_session_id (conversation db md5 sid ts) = Some sid
   \<and> (\<exists>st. sessions (conversation db md5 sid ts) sid = Some st)"
proof (induction ts rule: rev_induct)
  case Nil
  then show ?case
    using start_conversation_inv [of sid]
    by (auto simp add: conversation_def run_turns_def stage_of_def)
next
  case (snoc t ts)
  then obtain st where wk: "well_keyed (conversation db md5 sid ts)"
    and cs: "current_session_id (conversation db md5 sid ts) = Some sid"
    and ld: "sessions (conversation db md5 sid ts) sid = Some st" by auto
  from process_message_step [OF wk cs ld, of db md5 t] show ?case
    by (auto simp add: conversation_snoc)
qed

lemma turn_stage:
  "\<exists>a b. stage_of (conversation db md5 sid ts) sid = Some a
       \<and> stage_of (conversation db md5 sid (ts @ [t])) sid = Some b
       \<and> take (length (audit_transitions (conversation db md5 sid ts)))
            (audit_transitions (conversation db md5 sid (ts @ [t])))
           = audit_transitions (conversation db md5 sid ts)
       \<and> stage_path sid a
            (drop (length (audit_transitions (conversation db md5 sid ts)))
               (audit_transitions (conversation db md5 sid (ts @ [t])))) b
       \<and> stage_advances a b
       \<and> (terminal a \<longrightarrow>
             b = a \<and> snd (process_message db md5 t (conversation db md5 sid ts))
                      = (if a = COMPLETED then CompletedMsg else FailedMsg))"
proof -
  let ?w = "conversation db md5 sid ts"
  from conversation_inv [of db md5 sid ts] obtain st where wk: "well_keyed ?w"
    and cs: "current_session_id ?w = Some sid" and ld: "sessions ?w sid = Some st" by auto
  from process_message_step [OF wk cs ld, of db md5 t] obtain st' where
    s': "sessions (fst (process_message db md5 t ?w)) sid = Some st'"
    and tk: "take (length (audit_transitions ?w))
                (audit_transitions (fst (process_message db md5 t ?w))) = audit_transitions ?w"
    and sp: "stage_path sid (current_stage st)
                (drop (length (audit_transitions ?w))
                   (audit_transitions (fst (process_message db md5 t ?w))))
                (current_stage st')"
    and tm: "terminal (current_stage st) \<longrightarrow>
                 current_stage st' = current_stage st
                 \<and> snd (process_message db md5 t ?w)
                     = (if current_stage st = COMPLETED then CompletedMsg else FailedMsg)"
    by blast
  from sp have adv: "stage_advances (current_stage st) (current_stage st')"
    by (rule stage_path_advances)
  show ?thesis
    apply (rule exI [of _ "current_stage st"])
    apply (rule exI [of _ "current_stage st'"])
    using ld s' tk sp adv tm by (simp add: stage_of_def conversation_snoc)
qed

lemma conversation_stage_advances:
  "\<exists>a c. stage_of (conversation db md5 sid ts) sid = Some a
       \<and> stage_of (conversation db md5 sid (ts @ ts')) sid = Some c
       \<and> stage_advances a c"
proof (induction ts' rule: rev_induct)
  case Nil
  from conversation_inv [of db md5 sid ts] show ?case
    by (auto simp add: stage_of_def stage_advances_def)
next
  case (snoc t ts')
  then obtain a c where a: "stage_of (conversation db md5 sid ts) sid = Some a"
    and c: "stage_of (conversation db md5 sid (ts @ ts')) sid = Some c"
    and ac: "stage_advances a c" by auto
  from turn_stage [of db md5 sid "ts @ ts'" t] c obtain d where
    d: "stage_of (conversation db md5 sid ((ts @ ts') @ [t])) sid = Some d"
    and cd: "stage_advances c d" by auto
  from ac cd have "stage_advances a d" by (rule stage_advances_trans)
  with a d show ?case by simp
qed

subsection \<open>What single turns compute\<close>

lemma process_message_persisted:
  assumes cs: "current_session_id w = Some sid" and ld: "sessions w sid = Some st"
    and sid: "session_id st = sid"
    and rc: "\<not> nlu_requires_clarification t"
    and h: "process_by_stage db md5 t
              (add_message w sid ''customer'' (CustomerText (user_message t))) st = (w2, st2, r)"
    and p: "sessions w2 sid = Some p" "session_id p = sid"
  shows "snd (process_message db md5 t w) = r
         \<and> sessions (fst (process_message db md5 t w)) sid
             = Some (p\<lparr> conversation_history := conversation_history p
                          @ [\<lparr> role = ''system'', content = SystemText r \<rparr>] \<rparr>)"
proof -
  have "snd (detect_intent t (current_stage st)) = False"
    using rc by (simp add: detect_intent_def)
  then obtain i where di: "detect_intent t (current_stage st) = (i, False)"
    by (cases "detect_intent t (current_stage st)") auto
  have pm: "process_message db md5 t w = (add_message w2 sid ''system'' (SystemText r), r)"
    using cs ld di h by (simp add: process_message_def load_state_def Let_def)
  show ?thesis
    unfolding pm using add_message_existing [OF p, of "''system''" "SystemText r"] by simp
qed

lemma handle_sales_quote:
  assumes "ent_amount t = Some a" and "ent_tenure_months t = Some n"
    and "SalesAgent_execute \<lparr> si_requested_amount = Some a, si_tenure_months = Some n \<rparr> = Inr q"
  shows "\<exists>w2. handle_sales_stage t w st
                 = (w2, st\<lparr> sales_data := Some q, current_stage := KYC \<rparr>, SalesQuoteMsg q)
              \<and> sessions w2 (session_id st)
                 = Some (st\<lparr> sales_data := Some q, current_stage := KYC \<rparr>)"
  using assms
  by (simp add: handle_sales_stage_def Let_def transition_stage_def save_state_def
        log_state_transition_def)

lemma sales_turn:
  assumes cs: "current_session_id w = Some sid" and ld: "sessions w sid = Some st"
    and sid: "session_id st = sid" and stg: "current_stage st = SALES"
    and rc: "\<not> nlu_requires_clarification t"
    and ea: "ent_amount t = Some a" and et: "ent_tenure_months t = Some n"
    and q: "SalesAgent_execute \<lparr> si_requested_amount = Some a, si_tenure_months = Some n \<rparr> = Inr q"
  shows "\<exists>st'. sessions (fst (process_message db md5 t w)) sid = Some st'
           \<and> current_stage st' = KYC \<and> sales_data st' = Some q"
proof -
  let ?w1 = "add_message w sid ''customer'' (CustomerText (user_message t))"
  from handle_sales_quote [OF ea et q, of ?w1 st] obtain w2 where
    hs: "handle_sales_stage t ?w1 st
           = (w2, st\<lparr> sales_data := Some q, current_stage := KYC \<rparr>, SalesQuoteMsg q)"
    and p: "sessions w2 (session_id st) = Some (st\<lparr> sales_data := Some q, current_stage := KYC \<rparr>)"
    by blast
  have h: "process_by_stage db md5 t ?w1 st
           = (w2, st\<lparr> sales_data := Some q, current_stage := KYC \<rparr>, SalesQuoteMsg q)"
    using stg hs by (simp add: process_by_stage_def)
  from p sid have p': "sessions w2 sid = Some (st\<lparr> sales_data := Some q, current_stage := KYC \<rparr>)"
    by simp
  from process_message_persisted [OF cs ld sid rc h p'] sid show ?thesis by simp
qed

lemma handle_sanction_pdf_error:
  assumes "underwriting_data st = Some ud" and "sales_data st = Some sd"
    and "calculate_emi (of_int (approved_amount ud)) (final_interest_rate ud)
           (so_tenure_months sd) = Inr x"
    and "customer_name st = Some nm" and "customer_id st = Some cid"
    and "pdf_result t = Inl e"
  shows "handle_sanction_stage t w st = (w, st, SanctionErrorMsg e)"
  using assms by (simp add: handle_sanction_stage_def SanctionAgent_execute_def)

lemma handle_underwriting_approved_pdf_error:
  assumes sd: "sales_data st = Some sd" and kd: "kyc_data st = Some kd"
    and cid: "customer_id st = Some cid" and nm: "customer_name st = Some nm"
    and uw: "UnderwritingAgent_execute md5
               \<lparr> uw_customer_id = Some cid,
                 uw_requested_amount = Some (so_requested_amount sd),
                 uw_tenure_months = Some (so_tenure_months sd),
                 uw_monthly_income = Some (vo_monthly_income kd),
                 uw_estimated_emi = Some (so_estimated_emi sd) \<rparr> = Inr out"
    and dec: "decision out = APPROVED"
    and emi: "calculate_emi (of_int (approved_amount out)) (final_interest_rate out)
                (so_tenure_months sd) = Inr x"
    and pdf: "pdf_result t = Inl e"
  shows "\<exists>w2. handle_underwriting_stage md5 t w st
                 = (w2, st\<lparr> underwriting_data := Some out, current_stage := SANCTION \<rparr>,
                    UwApprovedMsg out (SanctionErrorMsg e))
              \<and> sessions w2 (session_id st)
                 = Some (st\<lparr> underwriting_data := Some out, current_stage := SANCTION \<rparr>)"
proof -
  let ?st1 = "st\<lparr> underwriting_data := Some out \<rparr>"
  let ?st2 = "st\<lparr> underwriting_data := Some out, current_stage := SANCTION \<rparr>"
  let ?w2 = "log_state_transition (save_state (save_state w ?st1) ?st2) (session_id st)
               (Some (current_stage st)) SANCTION ''Loan approved''"
  have tr: "transition_stage (save_state w ?st1) ?st1 SANCTION ''Loan approved'' = (?w2, ?st2)"
    by (simp add: transition_stage_def Let_def)
  have sn: "handle_sanction_stage t ?w2 ?st2 = (?w2, ?st2, SanctionErrorMsg e)"
    using sd cid nm emi pdf
    by (intro handle_sanction_pdf_error [where ud = out and sd = sd and x = x and nm = nm and cid = cid])
       simp_all
  have "handle_underwriting_stage md5 t w st = (?w2, ?st2, UwApprovedMsg out (SanctionErrorMsg e))"
    using sd kd cid uw dec tr sn by (simp add: handle_underwriting_stage_def Let_def)
  moreover have "sessions ?w2 (session_id st) = Some ?st2"
    by (simp add: log_state_transition_def save_state_def)
  ultimately show ?thesis by blast
qed

lemma handle_underwriting_rejected:
  assumes sd: "sales_data st = Some sd" and kd: "kyc_data st = Some kd"
    and cid: "customer_id st = Some cid"
    and uw: "UnderwritingAgent_execute md5
               \<lparr> uw_customer_id = Some cid,
                 uw_requested_amount = Some (so_requested_amount sd),
                 uw_tenure_months = Some (so_tenure_months sd),
                 uw_monthly_income = Some (vo_monthly_income kd),
                 uw_estimated_emi = Some (so_estimated_emi sd) \<rparr> = Inr out"
    and dec: "decision out = REJECTED"
  shows "\<exists>w2. handle_underwriting_stage md5 t w st
                 = (w2, st\<lparr> underwriting_data := Some out, current_stage := FAILED \<rparr>,
                    UwRejectedMsg (credit_score out))
              \<and> sessions w2 (session_id st)
                 = Some (st\<lparr> underwriting_data := Some out, current_stage := FAILED \<rparr>)"
  using assms
  by (simp add: handle_underwriting_stage_def Let_def transition_stage_def save_state_def
        log_state_transition_def)

lemma handle_kyc_verified:
  assumes "collect_name_parts [] (split (user_message t)) = parts" and "parts \<noteq> []"
    and "join '' '' parts \<noteq> []"
    and "find_employment_type (split (user_message t)) = Some emp" and "emp \<noteq> []"
    and "ent_pan t = Some pan" and "pan \<noteq> []"
    and "fst (VerificationAgent_execute db
               \<lparr> vi_name = Some (join '' '' parts), vi_pan = Some pan,
                 vi_employment_type = Some emp \<rparr>) = Inr vo"
    and "kyc_status vo = KYC_VERIFIED"
    and "lookup_by_pan db pan = Some (cid, c)"
  shows "handle_kyc_stage db md5 t w st
           = handle_underwriting_stage md5 t
               (log_state_transition
                  (save_state
                     (save_state w
                        (st\<lparr> kyc_data := Some vo, customer_id := Some cid,
                             customer_name := Some (join '' '' parts) \<rparr>))
                     (st\<lparr> kyc_data := Some vo, customer_id := Some cid,
                          customer_name := Some (join '' '' parts),
                          current_stage := UNDERWRITING \<rparr>))
                  (session_id st) (Some (current_stage st)) UNDERWRITING ''KYC verified'')
               (st\<lparr> kyc_data := Some vo, customer_id := Some cid,
                    customer_name := Some (join '' '' parts),
                    current_stage := UNDERWRITING \<rparr>)"
  using assms
  by (simp add: handle_kyc_stage_def Let_def truthy_str_def transition_stage_def)

lemma kyc_rejected_turn:
  assumes cs: "current_session_id w = Some sid" and ld: "sessions w sid = Some st"
    and sid: "session_id st = sid" and stg: "current_stage st = KYC"
    and rc: "\<not> nlu_requires_clarification t"
    and ex: "collect_name_parts [] (split (user_message t)) = parts" "parts \<noteq> []"
      "join '' '' parts \<noteq> []"
      "find_employment_type (split (user_message t)) = Some emp" "emp \<noteq> []"
      "ent_pan t = Some pan" "pan \<noteq> []"
      "fst (VerificationAgent_execute db
               \<lparr> vi_name = Some (join '' '' parts), vi_pan = Some pan,
                 vi_employment_type = Some emp \<rparr>) = Inr vo"
      "kyc_status vo = KYC_VERIFIED"
      "lookup_by_pan db pan = Some (cid, c)"
    and sd: "sales_data st = Some sd"
    and uw: "UnderwritingAgent_execute md5
               \<lparr> uw_customer_id = Some cid,
                 uw_requested_amount = Some (so_requested_amount sd),
                 uw_tenure_months = Some (so_tenure_months sd),
                 uw_monthly_income = Some (vo_monthly_income vo),
                 uw_estimated_emi = Some (so_estimated_emi sd) \<rparr> = Inr out"
    and dec: "decision out = REJECTED"
  shows "snd (process_message db md5 t w) = UwRejectedMsg (credit_score out)
         \<and> stage_of (fst (process_message db md5 t w)) sid = Some FAILED"
proof -
  let ?w1 = "add_message w sid ''customer'' (CustomerText (user_message t))"
  let ?st3 = "st\<lparr> kyc_data := Some vo, customer_id := Some cid,
                    customer_name := Some (join '' '' parts),
                    current_stage := UNDERWRITING \<rparr>"
  obtain w3 where hk: "handle_kyc_stage db md5 t ?w1 st = handle_underwriting_stage md5 t w3 ?st3"
    using handle_kyc_verified [OF ex, of md5 ?w1 st] by blast
  from handle_underwriting_rejected [where st = ?st3 and sd = sd and kd = vo and cid = cid
         and out = out and t = t and w = w3] sd uw dec
  obtain w4 where
    hu: "handle_underwriting_stage md5 t w3 ?st3
          = (w4, ?st3\<lparr> underwriting_data := Some out, current_stage := FAILED \<rparr>,
             UwRejectedMsg (credit_score out))"
    and p: "sessions w4 (session_id ?st3)
              = Some (?st3\<lparr> underwriting_data := Some out, current_stage := FAILED \<rparr>)"
    by auto
  have h: "process_by_stage db md5 t ?w1 st
          = (w4, ?st3\<lparr> underwriting_data := Some out, current_stage := FAILED \<rparr>,
             UwRejectedMsg (credit_score out))"
    using stg hk hu by (simp add: process_by_stage_def)
  from p sid have p': "sessions w4 sid
        = Some (?st3\<lparr> underwriting_data := Some out, current_stage := FAILED \<rparr>)"
    "session_id (?st3\<lparr> underwriting_data := Some out, current_stage := FAILED \<rparr>) = sid"
    by simp_all
  from process_message_persisted [OF cs ld sid rc h p'] show ?thesis
    by (simp add: stage_of_def)
qed

lemma kyc_approved_pdf_error_turn:
  assumes cs: "current_session_id w = Some sid" and ld: "sessions w sid = Some st"
    and sid: "session_id st = sid" and stg: "current_stage st = KYC"
    and rc: "\<not> nlu_requires_clarification t"
    and ex: "collect_name_parts [] (split (user_message t)) = parts" "parts \<noteq> []"
      "join '' '' parts \<noteq> []"
      "find_employment_type (split (user_message t)) = Some emp" "emp \<noteq> []"
      "ent_pan t = Some pan" "pan \<noteq> []"
      "fst (VerificationAgent_execute db
               \<lparr> vi_name = Some (join '' '' parts), vi_pan = Some pan,
                 vi_employment_type = Some emp \<rparr>) = Inr vo"
      "kyc_status vo = KYC_VERIFIED"
      "lookup_by_pan db pan = Some (cid, c)"
    and sd: "sales_data st = Some sd"
    and uw: "UnderwritingAgent_execute md5
               \<lparr> uw_customer_id = Some cid,
                 uw_requested_amount = Some (so_requested_amount sd),
                 uw_tenure_months = Some (so_tenure_months sd),
                 uw_monthly_income = Some (vo_monthly_income vo),
                 uw_estimated_emi = Some (so_estimated_emi sd) \<rparr> = Inr out"
    and dec: "decision out = APPROVED"
    and emi: "calculate_emi (of_int (approved_amount out)) (final_interest_rate out)
                (so_tenure_months sd) = Inr x"
    and pdf: "pdf_result t = Inl e"
  shows "snd (process_message db md5 t w) = UwApprovedMsg out (SanctionErrorMsg e)
         \<and> stage_of (fst (process_message db md5 t w)) sid = Some SANCTION"
proof -
  let ?w1 = "add_message w sid ''customer'' (CustomerText (user_message t))"
  let ?st3 = "st\<lparr> kyc_data := Some vo, customer_id := Some cid,
                    customer_name := Some (join '' '' parts),
                    current_stage := UNDERWRITING \<rparr>"
  obtain w3 where hk: "handle_kyc_stage db md5 t ?w1 st = handle_underwriting_stage md5 t w3 ?st3"
    using handle_kyc_verified [OF ex, of md5 ?w1 st] by blast
  from handle_underwriting_approved_pdf_error
         [where st = ?st3 and sd = sd and kd = vo and cid = cid and nm = "join '' '' parts"
            and out = out and x = x and t = t and e = e and w = w3]
       sd uw dec emi pdf
  obtain w4 where
    hu: "handle_underwriting_stage md5 t w3 ?st3
          = (w4, ?st3\<lparr> underwriting_data := Some out, current_stage := SANCTION \<rparr>,
             UwApprovedMsg out (SanctionErrorMsg e))"
    and p: "sessions w4 (session_id ?st3)
              = Some (?st3\<lparr> underwriting_data := Some out, current_stage := SANCTION \<rparr>)"
    by auto
  have h: "process_by_stage db md5 t ?w1 st
          = (w4, ?st3\<lparr> underwriting_data := Some out, current_stage := SANCTION \<rparr>,
             UwApprovedMsg out (SanctionErrorMsg e))"
    using stg hk hu by (simp add: process_by_stage_def)
  from p sid have p': "sessions w4 sid
        = Some (?st3\<lparr> underwriting_data := Some out, current_stage := SANCTION \<rparr>)"
    "session_id (?st3\<lparr> underwriting_data := Some out, current_stage := SANCTION \<rparr>) = sid"
    by simp_all
  from process_message_persisted [OF cs ld sid rc h p'] show ?thesis
    by (simp add: stage_of_def)
qed

subsection \<open>The example conversations, evaluated\<close>

lemma quote_3_lakhs:
  "SalesAgent_execute \<lparr> si_requested_amount = Some 300000, si_tenure_months = Some 24 \<rparr>
   = Inr \<lparr> so_requested_amount = 300000, so_tenure_months = 24,
             so_estimated_emi = 14227.34, so_interest_range = ''11.5% - 14%'' \<rparr>"
  by (simp add: SalesAgent_execute_def truthy_int_def Let_def get_interest_range_def
     get_mid_rate_def is_digit_def py_float_def digits_to_nat_def
     calculate_emi_exact py_float_pow_def DBL_RANGE_def py_round2_def round_half_even_def power_divide)

lemma quote_5_lakhs:
  "SalesAgent_execute \<lparr> si_requested_amount = Some 500000, si_tenure_months = Some 36 \<rparr>
   = Inr \<lparr> so_requested_amount = 500000, so_tenure_months = 36,
             so_estimated_emi = 16786.83, so_interest_range = ''11.5% - 14%'' \<rparr>"
  by (simp add: SalesAgent_execute_def truthy_int_def Let_def get_interest_range_def
     get_mid_rate_def is_digit_def py_float_def digits_to_nat_def
     calculate_emi_exact py_float_pow_def DBL_RANGE_def py_round2_def round_half_even_def power_divide)

lemma conversation_start:
  "\<exists>st. sessions (conversation db md5 sid []) sid = Some st \<and> current_stage st = SALES"
  using start_conversation_inv [of sid]
  by (auto simp add: conversation_def run_turns_def stage_of_def)

lemma conversation_after_quote:
  assumes "\<not> nlu_requires_clarification t" and "ent_amount t = Some a"
    and "ent_tenure_months t = Some n"
    and "SalesAgent_execute \<lparr> si_requested_amount = Some a, si_tenure_months = Some n \<rparr> = Inr q"
  shows "\<exists>st. sessions (conversation db md5 sid [t]) sid = Some st
           \<and> current_stage st = KYC \<and> sales_data st = Some q"
proof -
  let ?w = "conversation db md5 sid []"
  from conversation_inv [of db md5 sid "[]"] have wk: "well_keyed ?w"
    and cs: "current_session_id ?w = Some sid" by simp_all
  from conversation_start [of db md5 sid] obtain st where ld: "sessions ?w sid = Some st"
    and stg: "current_stage st = SALES" by blast
  from wk ld have sid: "session_id st = sid" by (simp add: well_keyed_def)
  from sales_turn [OF cs ld sid stg assms, of db md5] show ?thesis
    using conversation_snoc [of db md5 sid "[]" t] by simp
qed

lemma words_meera:
  "split ''Meera Nair, PAN YZABC8901D, SALARIED''
     = [''Meera'', ''Nair,'', ''PAN'', ''YZABC8901D,'', ''SALARIED'']"
  by (simp add: split_def py_isspace_def)

lemma employment_meera:
  "find_employment_type [''Meera'', ''Nair,'', ''PAN'', ''YZABC8901D,'', ''SALARIED'']
     = Some ''SALARIED''"
  by (simp add: upper_def upper_char_def is_lower_az_def)

lemma name_meera:
  "collect_name_parts [] [''Meera'', ''Nair,'', ''PAN'', ''YZABC8901D,'', ''SALARIED'']
     = [''Meera'', ''Nair,'']"
  by (simp add: isupper_def is_upper_AZ_def is_lower_az_def Let_def)

lemma kyc_meera:
  "VerificationAgent_execute CRM_DATABASE
     \<lparr> vi_name = Some ''Meera Nair,'', vi_pan = Some ''YZABC8901D'',
       vi_employment_type = Some ''SALARIED'' \<rparr>
   = (Inr \<lparr> kyc_status = KYC_VERIFIED, vo_employment_type = ''SALARIED'',
             vo_monthly_income = 20000, risk_flags = [''LOW_INCOME''] \<rparr>, [''YZABC8901D''])"
  by (simp add: VerificationAgent_execute_def Let_def get_or_empty_def strip_def
        py_isspace_def validate_pan_format_def pan_shape_def upper_def lower_def
        upper_char_def lower_char_def is_lower_az_def is_upper_AZ_def is_digit_def
        verify_customer_def CRM_DATABASE_def)

lemma lookup_meera:
  "lookup_by_pan CRM_DATABASE ''YZABC8901D''
   = Some (''CUST010'', \<lparr> cust_name = ''Meera Nair'', cust_pan = ''YZABC8901D'',
          cust_employment_type = ''SALARIED'', cust_monthly_income = 20000 \<rparr>)"
  by (simp add: CRM_DATABASE_def upper_def upper_char_def is_lower_az_def)

lemma underwriting_meera:
  "UnderwritingAgent_execute md5_registry_ids
     \<lparr> uw_customer_id = Some ''CUST010'', uw_requested_amount = Some 300000,
       uw_tenure_months = Some 24, uw_monthly_income = Some 20000,
       uw_estimated_emi = Some 14227.34 \<rparr>
   = Inr \<lparr> decision = REJECTED, approved_amount = 0, credit_score = 640,
           rate_comps = \<lparr> base = 11, credit_adjustment = 0, tenure_adjustment = 0 \<rparr>,
           final_interest_rate = 11, risk_grade = ''C+'' \<rparr>"
  by (simp add: UnderwritingAgent_execute_def truthy_str_def truthy_int_def truthy_real_def
        get_credit_score_def md5_registry_ids_def evaluate_eligibility_def
        calculate_rate_components_def apply_rate_bounds_def calculate_risk_grade_def
        BASE_RATE_def MIN_INTEREST_RATE_def MAX_INTEREST_RATE_def
        py_round2_def round_half_even_def Let_def)

lemma conversation_meera_failed:
  "stage_of (conversation CRM_DATABASE md5_registry_ids example_session
               [turn_loan_3_lakhs, turn_kyc_meera]) example_session = Some FAILED"
proof -
  let ?w = "conversation CRM_DATABASE md5_registry_ids example_session [turn_loan_3_lakhs]"
  let ?q = "\<lparr> so_requested_amount = 300000, so_tenure_months = 24,
             so_estimated_emi = 14227.34, so_interest_range = ''11.5% - 14%'' \<rparr>"
  let ?vo = "\<lparr> kyc_status = KYC_VERIFIED, vo_employment_type = ''SALARIED'',
             vo_monthly_income = 20000, risk_flags = [''LOW_INCOME''] \<rparr>"
  let ?out = "\<lparr> decision = REJECTED, approved_amount = 0, credit_score = 640,
           rate_comps = \<lparr> base = 11, credit_adjustment = 0, tenure_adjustment = 0 \<rparr>,
           final_interest_rate = 11, risk_grade = ''C+'' \<rparr>"
  let ?parts = "[''Meera'', ''Nair,'']"
  from conversation_inv [of CRM_DATABASE md5_registry_ids example_session "[turn_loan_3_lakhs]"]
  have wk: "well_keyed ?w" and cs: "current_session_id ?w = Some example_session" by simp_all
  have "\<exists>st. sessions ?w example_session = Some st \<and> current_stage st = KYC
           \<and> sales_data st = Some ?q"
    by (rule conversation_after_quote [where a = 300000 and n = 24])
       (simp_all add: turn_loan_3_lakhs_def quote_3_lakhs)
  then obtain st where ld: "sessions ?w example_session = Some st"
    and stg: "current_stage st = KYC" and sd: "sales_data st = Some ?q" by blast
  from wk ld have sid: "session_id st = example_session" by (simp add: well_keyed_def)
  have rc: "\<not> nlu_requires_clarification turn_kyc_meera" by (simp add: turn_kyc_meera_def)
  have um: "user_message turn_kyc_meera = ''Meera Nair, PAN YZABC8901D, SALARIED''"
    by (simp add: turn_kyc_meera_def)
  have nm: "collect_name_parts [] (split (user_message turn_kyc_meera)) = ?parts"
    unfolding um words_meera by (rule name_meera)
  have ne1: "?parts \<noteq> []" by simp
  have jn: "join '' '' ?parts = ''Meera Nair,''" by simp
  have ne2: "join '' '' ?parts \<noteq> []" by simp
  have emp: "find_employment_type (split (user_message turn_kyc_meera)) = Some ''SALARIED''"
    unfolding um words_meera by (rule employment_meera)
  have ne3: "''SALARIED'' \<noteq> []" by simp
  have pan: "ent_pan turn_kyc_meera = Some ''YZABC8901D''" by (simp add: turn_kyc_meera_def)
  have ne4: "''YZABC8901D'' \<noteq> []" by simp
  have vo: "fst (VerificationAgent_execute CRM_DATABASE
               \<lparr> vi_name = Some (join '' '' ?parts), vi_pan = Some ''YZABC8901D'',
                 vi_employment_type = Some ''SALARIED'' \<rparr>) = Inr ?vo"
    unfolding jn kyc_meera by simp
  have vs: "kyc_status ?vo = KYC_VERIFIED" by simp
  have uw: "UnderwritingAgent_execute md5_registry_ids
               \<lparr> uw_customer_id = Some ''CUST010'',
                 uw_requested_amount = Some (so_requested_amount ?q),
                 uw_tenure_months = Some (so_tenure_months ?q),
                 uw_monthly_income = Some (vo_monthly_income ?vo),
                 uw_estimated_emi = Some (so_estimated_emi ?q) \<rparr> = Inr ?out"
    using underwriting_meera by simp
  have dec: "decision ?out = REJECTED" by simp
  from kyc_rejected_turn [OF cs ld sid stg rc nm ne1 ne2 emp ne3 pan ne4 vo vs lookup_meera
         sd uw dec]
  have "stage_of (fst (process_message CRM_DATABASE md5_registry_ids turn_kyc_meera ?w))
          example_session = Some FAILED" by simp
  then show ?thesis
    using conversation_snoc [of CRM_DATABASE md5_registry_ids example_session
            "[turn_loan_3_lakhs]" turn_kyc_meera] by simp
qed


section \<open>The orchestrator: the stage never steps back\<close>

text \<open>
  Claim C5. Take any conversation: a new session and then any sequence of customer
  turns, whatever the classifier, the extractor, the registry, the credit scores and
  the PDF generator answer. In every further turn the audit trail only grows, and the
  transitions the turn appends lead from the stage before the turn to the stage after
  it, each one either a single step along SALES, KYC, UNDERWRITING, SANCTION,
  COMPLETED or a move into FAILED from a stage that is not terminal. So the stage
  after the turn is the stage before it or a later one, or FAILED; and when the stage
  is COMPLETED or FAILED the turn leaves it as it is and answers with the fixed closing
  message of that stage. Over any number of further turns the stage never returns to
  an earlier one.
\<close>

theorem C5_stage_monotone:
  "(\<exists>a b. stage_of (conversation db md5 sid ts) sid = Some a
       \<and> stage_of (conversation db md5 sid (ts @ [t])) sid = Some b
       \<and> take (length (audit_transitions (conversation db md5 sid ts)))
            (audit_transitions (conversation db md5 sid (ts @ [t])))
           = audit_transitions (conversation db md5 sid ts)
       \<and> stage_path sid a
            (drop (length (audit_transitions (conversation db md5 sid ts)))
               (audit_transitions (conversation db md5 sid (ts @ [t])))) b
       \<and> stage_advances a b
       \<and> (terminal a \<longrightarrow>
             b = a \<and> snd (process_message db md5 t (conversation db md5 sid ts))
                      = (if a = COMPLETED then CompletedMsg else FailedMsg)))
   \<and> (\<exists>a c. stage_of (conversation db md5 sid ts) sid = Some a
       \<and> stage_of (conversation db md5 sid (ts @ ts')) sid = Some c
       \<and> stage_advances a c)"
  using turn_stage [of db md5 sid ts t] conversation_stage_advances [of db md5 sid ts ts']
  by (rule conjI)


text \<open>The theorem on the rejected application of examples/failure\_cases.py (Meera
  Nair, credit score 640): after the KYC turn the stage is FAILED, and a further turn
  leaves it FAILED and is answered with the closing message.\<close>

theorem C5_stage_monotone_witness:
  "stage_of (conversation CRM_DATABASE md5_registry_ids example_session
               [turn_loan_3_lakhs, turn_kyc_meera]) example_session = Some FAILED
   \<and> stage_of (conversation CRM_DATABASE md5_registry_ids example_session
               ([turn_loan_3_lakhs, turn_kyc_meera] @ [turn_loan_5_lakhs])) example_session
       = Some FAILED
   \<and> snd (process_message CRM_DATABASE md5_registry_ids turn_loan_5_lakhs
            (conversation CRM_DATABASE md5_registry_ids example_session
               [turn_loan_3_lakhs, turn_kyc_meera])) = FailedMsg"
  using C5_stage_monotone [of CRM_DATABASE md5_registry_ids example_session
          "[turn_loan_3_lakhs, turn_kyc_meera]" turn_loan_5_lakhs "[]"]
        conversation_meera_failed
  by (auto simp add: terminal_def)

section \<open>The orchestrator: worker exceptions\<close>

lemma handle_sales_shows_no_error:
  "shown_errors (snd (snd (handle_sales_stage t w st))) = []"
  by (simp add: handle_sales_stage_def Let_def transition_stage_def split: sum.splits)

lemma words_priya:
  "split ''Priya Sharma, PAN FGHIJ5678K, SALARIED''
     = [''Priya'', ''Sharma,'', ''PAN'', ''FGHIJ5678K,'', ''SALARIED'']"
  by (simp add: split_def py_isspace_def)

lemma employment_priya:
  "find_employment_type [''Priya'', ''Sharma,'', ''PAN'', ''FGHIJ5678K,'', ''SALARIED'']
     = Some ''SALARIED''"
  by (simp add: upper_def upper_char_def is_lower_az_def)

lemma name_priya:
  "collect_name_parts [] [''Priya'', ''Sharma,'', ''PAN'', ''FGHIJ5678K,'', ''SALARIED'']
     = [''Priya'', ''Sharma,'']"
  by (simp add: isupper_def is_upper_AZ_def is_lower_az_def Let_def)

lemma kyc_priya:
  "VerificationAgent_execute CRM_DATABASE
     \<lparr> vi_name = Some ''Priya Sharma,'', vi_pan = Some ''FGHIJ5678K'',
       vi_employment_type = Some ''SALARIED'' \<rparr>
   = (Inr \<lparr> kyc_status = KYC_VERIFIED, vo_employment_type = ''SALARIED'',
             vo_monthly_income = 95000, risk_flags = [] \<rparr>, [''FGHIJ5678K''])"
  by (simp add: VerificationAgent_execute_def Let_def get_or_empty_def strip_def
        py_isspace_def validate_pan_format_def pan_shape_def upper_def lower_def
        upper_char_def lower_char_def is_lower_az_def is_upper_AZ_def is_digit_def
        verify_customer_def CRM_DATABASE_def)

lemma lookup_priya:
  "lookup_by_pan CRM_DATABASE ''FGHIJ5678K''
   = Some (''CUST002'', \<lparr> cust_name = ''Priya Sharma'', cust_pan = ''FGHIJ5678K'',
          cust_employment_type = ''SALARIED'', cust_monthly_income = 95000 \<rparr>)"
  by (simp add: CRM_DATABASE_def upper_def upper_char_def is_lower_az_def)

lemma underwriting_priya:
  "UnderwritingAgent_execute md5_registry_ids
     \<lparr> uw_customer_id = Some ''CUST002'', uw_requested_amount = Some 500000,
       uw_tenure_months = Some 36, uw_monthly_income = Some 95000,
       uw_estimated_emi = Some 16786.83 \<rparr>
   = Inr \<lparr> decision = APPROVED, approved_amount = 500000, credit_score = 825,
           rate_comps = \<lparr> base = 11, credit_adjustment = - 1, tenure_adjustment = 0 \<rparr>,
           final_interest_rate = 10, risk_grade = ''A+'' \<rparr>"
  by (simp add: UnderwritingAgent_execute_def truthy_str_def truthy_int_def truthy_real_def
        get_credit_score_def md5_registry_ids_def evaluate_eligibility_def
        calculate_rate_components_def apply_rate_bounds_def calculate_risk_grade_def
        BASE_RATE_def MIN_INTEREST_RATE_def MAX_INTEREST_RATE_def
        py_round2_def round_half_even_def Let_def)

lemma final_emi_priya: "calculate_emi 500000 10 36 = Inr 16133.59"
  by (simp add: calculate_emi_exact py_float_pow_def DBL_RANGE_def py_round2_def round_half_even_def
        Let_def power_divide)


text \<open>
  Claim C8 at a turn in which a worker raises. The customer of the happy path (Priya
  Sharma, credit score 825) asks for 500,000 over 36 months and passes KYC and
  underwriting; at the sanction stage the PDF generator raises an I/O error. The
  exception does not leave \<open>process_message\<close>, and its text is part of the message
  returned to the customer: the approval text is followed by \<open>"Error generating
  sanction letter: "\<close> and \<open>str(e)\<close>. The sales handler, by
  \<open>handle_sales_shows_no_error\<close>, never shows an exception text.
\<close>

theorem C8_error_text_reaches_customer:
  "snd (process_message CRM_DATABASE md5_registry_ids turn_kyc_priya_pdf_fails
          (conversation CRM_DATABASE md5_registry_ids example_session [turn_loan_5_lakhs]))
     = UwApprovedMsg
         \<lparr> decision = APPROVED, approved_amount = 500000, credit_score = 825,
           rate_comps = \<lparr> base = 11, credit_adjustment = - 1, tenure_adjustment = 0 \<rparr>,
           final_interest_rate = 10, risk_grade = ''A+'' \<rparr>
         (SanctionErrorMsg (CollaboratorError ''[Errno 28] No space left on device''))
   \<and> shown_errors
         (snd (process_message CRM_DATABASE md5_registry_ids turn_kyc_priya_pdf_fails
            (conversation CRM_DATABASE md5_registry_ids example_session [turn_loan_5_lakhs])))
       = [CollaboratorError ''[Errno 28] No space left on device'']"
proof -
  let ?w = "conversation CRM_DATABASE md5_registry_ids example_session [turn_loan_5_lakhs]"
  let ?t = turn_kyc_priya_pdf_fails
  let ?q = "\<lparr> so_requested_amount = 500000, so_tenure_months = 36,
             so_estimated_emi = 16786.83, so_interest_range = ''11.5% - 14%'' \<rparr>"
  let ?vo = "\<lparr> kyc_status = KYC_VERIFIED, vo_employment_type = ''SALARIED'',
             vo_monthly_income = 95000, risk_flags = [] \<rparr>"
  let ?out = "\<lparr> decision = APPROVED, approved_amount = 500000, credit_score = 825,
           rate_comps = \<lparr> base = 11, credit_adjustment = - 1, tenure_adjustment = 0 \<rparr>,
           final_interest_rate = 10, risk_grade = ''A+'' \<rparr>"
  let ?parts = "[''Priya'', ''Sharma,'']"
  let ?e = "CollaboratorError ''[Errno 28] No space left on device''"
  from conversation_inv [of CRM_DATABASE md5_registry_ids example_session "[turn_loan_5_lakhs]"]
  have wk: "well_keyed ?w" and cs: "current_session_id ?w = Some example_session" by simp_all
  have "\<exists>st. sessions ?w example_session = Some st \<and> current_stage st = KYC
           \<and> sales_data st = Some ?q"
    by (rule conversation_after_quote [where a = 500000 and n = 36])
       (simp_all add: turn_loan_5_lakhs_def quote_5_lakhs)
  then obtain st where ld: "sessions ?w example_session = Some st"
    and stg: "current_stage st = KYC" and sd: "sales_data st = Some ?q" by blast
  from wk ld have sid: "session_id st = example_session" by (simp add: well_keyed_def)
  have rc: "\<not> nlu_requires_clarification ?t" by (simp add: turn_kyc_priya_pdf_fails_def)
  have um: "user_message ?t = ''Priya Sharma, PAN FGHIJ5678K, SALARIED''"
    by (simp add: turn_kyc_priya_pdf_fails_def)
  have nm: "collect_name_parts [] (split (user_message ?t)) = ?parts"
    unfolding um words_priya by (rule name_priya)
  have ne1: "?parts \<noteq> []" by simp
  have jn: "join '' '' ?parts = ''Priya Sharma,''" by simp
  have ne2: "join '' '' ?parts \<noteq> []" by simp
  have emp: "find_employment_type (split (user_message ?t)) = Some ''SALARIED''"
    unfolding um words_priya by (rule employment_priya)
  have ne3: "''SALARIED'' \<noteq> []" by simp
  have pan: "ent_pan ?t = Some ''FGHIJ5678K''" by (simp add: turn_kyc_priya_pdf_fails_def)
  have ne4: "''FGHIJ5678K'' \<noteq> []" by simp
  have vo: "fst (VerificationAgent_execute CRM_DATABASE
               \<lparr> vi_name = Some (join '' '' ?parts), vi_pan = Some ''FGHIJ5678K'',
                 vi_employment_type = Some ''SALARIED'' \<rparr>) = Inr ?vo"
    unfolding jn kyc_priya by simp
  have vs: "kyc_status ?vo = KYC_VERIFIED" by simp
  have uw: "UnderwritingAgent_execute md5_registry_ids
               \<lparr> uw_customer_id = Some ''CUST002'',
                 uw_requested_amount = Some (so_requested_amount ?q),
                 uw_tenure_months = Some (so_tenure_months ?q),
                 uw_monthly_income = Some (vo_monthly_income ?vo),
                 uw_estimated_emi = Some (so_estimated_emi ?q) \<rparr> = Inr ?out"
    using underwriting_priya by simp
  have dec: "decision ?out = APPROVED" by simp
  have emi: "calculate_emi (of_int (approved_amount ?out)) (final_interest_rate ?out)
                (so_tenure_months ?q) = Inr 16133.59"
    using final_emi_priya by simp
  have pdf: "pdf_result ?t = Inl ?e" by (simp add: turn_kyc_priya_pdf_fails_def)
  from kyc_approved_pdf_error_turn [OF cs ld sid stg rc nm ne1 ne2 emp ne3 pan ne4 vo vs
         lookup_priya sd uw dec emi pdf]
  have r: "snd (process_message CRM_DATABASE md5_registry_ids ?t ?w)
             = UwApprovedMsg ?out (SanctionErrorMsg ?e)" by simp
  show ?thesis unfolding r by simp
qed

end
